theory Spec2Isabelle
  imports Complex_Main "HOL-Library.Char_ord" "HOL-Library.List_Lexorder"
begin

section \<open>Agent registry (src/hub/services/agent\_registry.py)\<close>

text \<open>
  Times are microseconds since the epoch: the source stores
  \<^verbatim>\<open>datetime.utcnow().isoformat()\<close> and reads it back with
  \<^verbatim>\<open>datetime.fromisoformat\<close>, which is the identity on such values.
  A \<^verbatim>\<open>timedelta(minutes=n)\<close> is \<open>minutes n\<close>. The clock reads of one call are taken
  as one instant.
\<close>

type_synonym time = int

definition minutes :: "int \<Rightarrow> int" where
  "minutes n = n * 60 * 1000000"

type_synonym measurements = "(string \<times> string) list"

text \<open>The registration body (models/agent.py, \<^verbatim>\<open>AgentRegistration\<close>); the two entries of
  \<^verbatim>\<open>attestation_data\<close> that the registry reads may be absent.\<close>

record registration =
  reg_agent_id :: string
  reg_agent_type :: string
  reg_capabilities :: "string list"
  reg_endpoint :: string
  reg_attestation_endpoint :: string
  reg_quote :: "string option"
  reg_public_key :: "string option"

record agent =
  agent_id :: string
  agent_type :: string
  capabilities :: "string list"
  endpoint :: string
  attestation_endpoint :: string
  public_key :: string
  attestation_quote :: string
  status :: string
  registered_at :: time
  last_seen :: time
  client_id :: string
  measurements :: measurements

text \<open>\<^verbatim>\<open>self.agents\<close> (agent id to record) and \<^verbatim>\<open>self.client_agents\<close>
  (client id to the list of agent ids, in registration order, duplicates kept).\<close>

record registry =
  agents :: "string \<rightharpoonup> agent"
  client_agents :: "string \<rightharpoonup> string list"

definition empty_registry :: registry where
  "empty_registry = \<lparr>agents = Map.empty, client_agents = Map.empty\<rparr>"

text \<open>The attestation client is not part of the sources at hand; its
  \<^verbatim>\<open>verify_attestation_quote\<close> is a parameter. It returns the flag and a result
  dictionary of which the registry reads \<^verbatim>\<open>error\<close> and \<^verbatim>\<open>measurements\<close>,
  or raises (\<open>Inl\<close> of the exception text).\<close>

record verification_result =
  vr_error :: "string option"
  vr_measurements :: "measurements option"

type_synonym verifier = "string \<Rightarrow> string + (bool \<times> verification_result)"

datatype reg_result =
  Registered string measurements
| Rejected string

text \<open>Python truthiness of an optional string: \<^verbatim>\<open>not x\<close> holds for \<^verbatim>\<open>None\<close> and
  for the empty string.\<close>

fun falsy :: "string option \<Rightarrow> bool" where
  "falsy None = True"
| "falsy (Some s) = (s = [])"

definition ids_of :: "registry \<Rightarrow> string \<Rightarrow> string list" where
  "ids_of r cid = (case client_agents r cid of None \<Rightarrow> [] | Some ids \<Rightarrow> ids)"

definition register_agent ::
  "verifier \<Rightarrow> time \<Rightarrow> registration \<Rightarrow> string \<Rightarrow> registry \<Rightarrow> registry \<times> reg_result" where
  "register_agent verify_attestation_quote now reg cid r =
    (if falsy (reg_quote reg) \<or> falsy (reg_public_key reg)
     then (r, Rejected ''Missing attestation data'')
     else
       (case verify_attestation_quote (the (reg_quote reg)) of
          Inl e \<Rightarrow> (r, Rejected e)
        | Inr (verified, vres) \<Rightarrow>
            if \<not> verified
            then (r, Rejected (case vr_error vres of
                                 None \<Rightarrow> ''Attestation verification failed''
                               | Some e \<Rightarrow> e))
            else
              let a = \<lparr>agent_id = reg_agent_id reg,
                       agent_type = reg_agent_type reg,
                       capabilities = reg_capabilities reg,
                       endpoint = reg_endpoint reg,
                       attestation_endpoint = reg_attestation_endpoint reg,
                       public_key = the (reg_public_key reg),
                       attestation_quote = the (reg_quote reg),
                       status = ''verified'',
                       registered_at = now,
                       last_seen = now,
                       client_id = cid,
                       measurements = (case vr_measurements vres of None \<Rightarrow> [] | Some m \<Rightarrow> m)\<rparr>
              in (\<lparr>agents = (agents r)(reg_agent_id reg \<mapsto> a),
                   client_agents = (client_agents r)(cid \<mapsto> ids_of r cid @ [reg_agent_id reg])\<rparr>,
                  Registered (reg_agent_id reg) (measurements a))))"

definition get_agent :: "registry \<Rightarrow> string \<Rightarrow> string \<Rightarrow> agent option" where
  "get_agent r aid cid =
    (case agents r aid of
       None \<Rightarrow> None
     | Some a \<Rightarrow> if client_id a = cid then Some a else None)"

definition get_agents_by_capability :: "registry \<Rightarrow> string \<Rightarrow> string \<Rightarrow> agent list" where
  "get_agents_by_capability r capability cid =
    concat (map (\<lambda>aid. case agents r aid of
                          None \<Rightarrow> []
                        | Some a \<Rightarrow> if capability \<in> set (capabilities a) \<and> status a = ''verified''
                                    then [a] else [])
                (ids_of r cid))"

definition get_all_agents :: "registry \<Rightarrow> string \<Rightarrow> agent list" where
  "get_all_agents r cid =
    concat (map (\<lambda>aid. case agents r aid of None \<Rightarrow> [] | Some a \<Rightarrow> [a]) (ids_of r cid))"

definition update_agent_heartbeat :: "time \<Rightarrow> string \<Rightarrow> string \<Rightarrow> registry \<Rightarrow> registry \<times> bool" where
  "update_agent_heartbeat now aid cid r =
    (case get_agent r aid cid of
       Some a \<Rightarrow> (r\<lparr>agents := (agents r)(aid \<mapsto> a\<lparr>last_seen := now\<rparr>)\<rparr>, True)
     | None \<Rightarrow> (r, False))"

text \<open>One entry of a health bucket: agent id, agent type, last seen.\<close>

type_synonym health_entry = "string \<times> string \<times> time"

record health_status =
  healthy :: "health_entry list"
  unhealthy :: "health_entry list"
  inactive :: "health_entry list"

definition health_step :: "time \<Rightarrow> registry \<times> health_status \<Rightarrow> string \<Rightarrow> registry \<times> health_status" where
  "health_step current_time st aid =
    (case agents (fst st) aid of
       None \<Rightarrow> st
     | Some a \<Rightarrow>
         let time_since_seen = current_time - last_seen a;
             e = (aid, agent_type a, last_seen a)
         in if time_since_seen < minutes 5
            then (fst st, (snd st)\<lparr>healthy := healthy (snd st) @ [e]\<rparr>)
            else if time_since_seen < minutes 15
            then (fst st, (snd st)\<lparr>unhealthy := unhealthy (snd st) @ [e]\<rparr>)
            else ((fst st)\<lparr>agents := (agents (fst st))(aid \<mapsto> a\<lparr>status := ''inactive''\<rparr>)\<rparr>,
                  (snd st)\<lparr>inactive := inactive (snd st) @ [e]\<rparr>))"

definition check_agent_health :: "time \<Rightarrow> string \<Rightarrow> registry \<Rightarrow> registry \<times> health_status" where
  "check_agent_health current_time cid r =
    foldl (health_step current_time)
          (r, \<lparr>healthy = [], unhealthy = [], inactive = []\<rparr>) (ids_of r cid)"

datatype py_error = KeyError | ValueError | IndexError | AttributeError | TypeError

text \<open>\<^verbatim>\<open>remove_agent\<close>: the record is deleted first; \<^verbatim>\<open>list.remove\<close> then drops the
  first occurrence of the id from the client's list, and raises when there is none.\<close>

definition remove_agent :: "string \<Rightarrow> string \<Rightarrow> registry \<Rightarrow> registry \<times> (py_error + bool)" where
  "remove_agent aid cid r =
    (case get_agent r aid cid of
       None \<Rightarrow> (r, Inr False)
     | Some a \<Rightarrow>
         let r1 = r\<lparr>agents := (agents r)(aid := None)\<rparr>
         in (case client_agents r1 cid of
               None \<Rightarrow> (r1, Inl KeyError)
             | Some ids \<Rightarrow>
                 if aid \<in> set ids
                 then (r1\<lparr>client_agents := (client_agents r1)(cid \<mapsto> remove1 aid ids)\<rparr>, Inr True)
                 else (r1, Inl ValueError)))"

definition is_agent_online :: "time \<Rightarrow> agent \<Rightarrow> bool" where
  "is_agent_online now a = (now - last_seen a < minutes 5)"

text \<open>A directory line: agent id, agent type, capabilities, endpoint, online/offline.\<close>

record directory_entry =
  de_agent_id :: string
  de_agent_type :: string
  de_capabilities :: "string list"
  de_endpoint :: string
  de_status :: string

definition get_agent_directory :: "time \<Rightarrow> registry \<Rightarrow> string \<Rightarrow> directory_entry list" where
  "get_agent_directory now r cid =
    concat (map (\<lambda>aid. case agents r aid of
                          None \<Rightarrow> []
                        | Some a \<Rightarrow>
                            if status a = ''verified''
                            then [\<lparr>de_agent_id = aid,
                                   de_agent_type = agent_type a,
                                   de_capabilities = capabilities a,
                                   de_endpoint = endpoint a,
                                   de_status = (if is_agent_online now a then ''online'' else ''offline'')\<rparr>]
                            else [])
                (ids_of r cid))"

subsection \<open>Reachable registries\<close>

text \<open>The registries the hub can be in: the empty one, changed by any of the four
  mutating operations, with any verifier outcome and clock reading.\<close>

inductive reachable :: "registry \<Rightarrow> bool" where
  reach_empty: "reachable empty_registry"
| reach_register: "reachable r \<Longrightarrow> reachable (fst (register_agent v now reg cid r))"
| reach_heartbeat: "reachable r \<Longrightarrow> reachable (fst (update_agent_heartbeat now aid cid r))"
| reach_health: "reachable r \<Longrightarrow> reachable (fst (check_agent_health now cid r))"
| reach_remove: "reachable r \<Longrightarrow> reachable (fst (remove_agent aid cid r))"

text \<open>Every stored record sits under its own id, and its owner's list names it.\<close>

definition registry_inv :: "registry \<Rightarrow> bool" where
  "registry_inv r \<longleftrightarrow>
     (\<forall>k a. agents r k = Some a \<longrightarrow> agent_id a = k \<and> k \<in> set (ids_of r (client_id a)))"

subsection \<open>Histories\<close>

text \<open>The calls that change a registry, and a registry after a list of them. A call
  \<open>registers a c\<close> when it is a registration of agent id \<open>a\<close> under client \<open>c\<close>.\<close>

datatype event =
  Register verifier time registration string
| Heartbeat time string string
| HealthCheck time string
| Remove string string

fun apply_event :: "event \<Rightarrow> registry \<Rightarrow> registry" where
  "apply_event (Register v now reg cid) r = fst (register_agent v now reg cid r)"
| "apply_event (Heartbeat now aid cid) r = fst (update_agent_heartbeat now aid cid r)"
| "apply_event (HealthCheck now cid) r = fst (check_agent_health now cid r)"
| "apply_event (Remove aid cid) r = fst (remove_agent aid cid r)"

fun run_events :: "event list \<Rightarrow> registry \<Rightarrow> registry" where
  "run_events [] r = r"
| "run_events (e # es) r = run_events es (apply_event e r)"

fun registers :: "string \<Rightarrow> string \<Rightarrow> event \<Rightarrow> bool" where
  "registers a c (Register v now reg cid) = (reg_agent_id reg = a \<and> cid = c)"
| "registers a c e = False"

section \<open>JSON values\<close>

text \<open>
  The dictionaries that cross the HTTP boundary. A Python \<^verbatim>\<open>dict\<close> is an association
  list in insertion order (keys distinct); a finite \<^verbatim>\<open>float\<close> is the rational number
  it denotes, so that comparisons of floats are comparisons of these numbers.
\<close>

datatype json =
  JNull
| JBool bool
| JInt int
| JFloat rat
| JStr string
| JList "json list"
| JObj "(string \<times> json) list"

type_synonym dict = "(string \<times> json) list"

text \<open>\<^verbatim>\<open>d.get(k)\<close> and \<^verbatim>\<open>d.get(k, default)\<close>.\<close>

definition dict_get :: "dict \<Rightarrow> string \<Rightarrow> json" where
  "dict_get d k = (case map_of d k of None \<Rightarrow> JNull | Some v \<Rightarrow> v)"

definition dict_get_default :: "dict \<Rightarrow> string \<Rightarrow> json \<Rightarrow> json" where
  "dict_get_default d k dflt = (case map_of d k of None \<Rightarrow> dflt | Some v \<Rightarrow> v)"

text \<open>Python truthiness (\<^verbatim>\<open>not v\<close> is its negation).\<close>

fun truthy :: "json \<Rightarrow> bool" where
  "truthy JNull = False"
| "truthy (JBool b) = b"
| "truthy (JInt i) = (i \<noteq> 0)"
| "truthy (JFloat q) = (q \<noteq> 0)"
| "truthy (JStr s) = (s \<noteq> [])"
| "truthy (JList xs) = (xs \<noteq> [])"
| "truthy (JObj kvs) = (kvs \<noteq> [])"

text \<open>Lists and dictionaries cannot be members of a Python set.\<close>

fun hashable :: "json \<Rightarrow> bool" where
  "hashable (JList xs) = False"
| "hashable (JObj kvs) = False"
| "hashable v = True"

text \<open>The float literal \<^verbatim>\<open>0.7\<close>: the double nearest to seven tenths.\<close>

definition float_0_7 :: rat where
  "float_0_7 = 3152519739159347 / 4503599627370496"

text \<open>\<^verbatim>\<open>v < 0.7\<close>: defined for numbers (a \<^verbatim>\<open>bool\<close> is an \<^verbatim>\<open>int\<close>), a
  \<^verbatim>\<open>TypeError\<close> otherwise.\<close>

fun lt_float :: "json \<Rightarrow> rat \<Rightarrow> py_error + bool" where
  "lt_float (JInt i) t = Inr (of_int i < t)"
| "lt_float (JFloat q) t = Inr (q < t)"
| "lt_float (JBool b) t = Inr ((if b then 1 else 0) < t)"
| "lt_float v t = Inl TypeError"

section \<open>Routing policy (src/hub/services/unified\_llm\_manager.py)\<close>

text \<open>\<^verbatim>\<open>str.lower\<close> on ASCII letters and the substring test \<^verbatim>\<open>word in text\<close>.\<close>

definition lower_char :: "char \<Rightarrow> char" where
  "lower_char c =
     (if (65::nat) \<le> of_char c \<and> of_char c \<le> (90::nat)
      then char_of (of_char c + (32::nat)) else c)"

definition lower :: "string \<Rightarrow> string" where
  "lower s = map lower_char s"

fun starts_with :: "string \<Rightarrow> string \<Rightarrow> bool" where
  "starts_with [] s = True"
| "starts_with (w # ws) [] = False"
| "starts_with (w # ws) (c # cs) = (w = c \<and> starts_with ws cs)"

fun contains :: "string \<Rightarrow> string \<Rightarrow> bool" where
  "contains w [] = (w = [])"
| "contains w (c # cs) = (starts_with w (c # cs) \<or> contains w cs)"

definition any_word_in :: "string list \<Rightarrow> string \<Rightarrow> bool" where
  "any_word_in ws text = list_ex (\<lambda>w. contains w text) ws"

record routing_decision =
  best_agent :: string
  reasoning :: string
  priority :: string
  estimated_time :: int
  confidence :: rat

text \<open>\<^verbatim>\<open>_mock_route_to_agent\<close>; the two random draws are arguments.\<close>

definition mock_route_to_agent :: "int \<Rightarrow> rat \<Rightarrow> string \<Rightarrow> agent list \<Rightarrow> routing_decision" where
  "mock_route_to_agent rand_time rand_conf query available_agents =
    (let query_lower = lower query;
         (best, why, prio) =
           (if any_word_in [''roi'', ''budget'', ''financial'', ''revenue'', ''cost''] query_lower
            then (''finance'', ''Query contains financial terms requiring specialized analysis'', ''high'')
            else if any_word_in [''campaign'', ''marketing'', ''customer'', ''brand''] query_lower
            then (''marketing'', ''Query relates to marketing activities and campaigns'', ''medium'')
            else if any_word_in [''sales'', ''pipeline'', ''leads'', ''deals''] query_lower
            then (''sales'', ''Query involves sales data and pipeline analysis'', ''medium'')
            else ((case available_agents of [] \<Rightarrow> ''finance'' | a # _ \<Rightarrow> agent_type a),
                  ''General business query routed to available specialist'', ''low''));
         agent_found = list_ex (\<lambda>a. agent_type a = best) available_agents;
         (best', why') =
           (case available_agents of
              a # _ \<Rightarrow> if \<not> agent_found
                       then (agent_type a, ''Preferred agent not available, routing to '' @ agent_type a)
                       else (best, why)
            | [] \<Rightarrow> (best, why))
     in \<lparr>best_agent = best', reasoning = why', priority = prio,
         estimated_time = rand_time, confidence = rand_conf\<rparr>)"

text \<open>\<^verbatim>\<open>route_to_agent\<close>: the development and the production branch both end in the
  mock policy.\<close>

definition route_to_agent :: "int \<Rightarrow> rat \<Rightarrow> string \<Rightarrow> agent list \<Rightarrow> routing_decision" where
  "route_to_agent = mock_route_to_agent"

section \<open>Transport (src/hub/services/vm\_communication\_manager.py)\<close>

record request_data =
  rq_query :: string
  rq_requesting_agent :: "string option"
  rq_context :: dict
  rq_data_requirements :: "string list"
  rq_priority :: string
  rq_timeout_seconds :: int

record relevant_data =
  rd_client_id :: string
  rd_request_context :: dict
  rd_data_types :: "string list"
  rd_documents :: "json list"
  rd_financial_data :: "dict option"
  rd_marketing_data :: "dict option"

record data_package =
  dp_encrypted :: bool
  dp_data :: relevant_data
  dp_prepared_at :: time

record dispatch =
  d_routing_id :: string
  d_query :: string
  d_context :: dict
  d_data_package :: data_package
  d_requesting_agent :: "string option"
  d_priority :: string

text \<open>What the HTTP POST does is not the program's to decide: a response with its status,
  its text and its body as JSON (when it parses), a timeout, or any other failure.\<close>

datatype http_outcome =
  HttpResponse nat string "json option"
| HttpTimeout
| HttpFailed string

text \<open>The dictionary \<^verbatim>\<open>send_to_agent\<close> returns: the peer's JSON reply, or one of its four
  \<^verbatim>\<open>{"error": ...}\<close> dictionaries.\<close>

datatype send_result =
  SendReply json
| NotConfigured string
| BadStatus nat string
| SendTimeout string
| CommunicationFailed string

fun is_send_error :: "send_result \<Rightarrow> bool" where
  "is_send_error (SendReply j) = False"
| "is_send_error r = True"

definition send_to_agent ::
  "(string \<rightharpoonup> string) \<Rightarrow> (string \<Rightarrow> dispatch \<Rightarrow> http_outcome) \<Rightarrow> string \<Rightarrow> dispatch \<Rightarrow> send_result" where
  "send_to_agent spoke_endpoints post atype data =
    (case spoke_endpoints atype of
       None \<Rightarrow> NotConfigured atype
     | Some base_url \<Rightarrow>
         (case post (base_url @ ''/api/v1/process'') data of
            HttpResponse code text body \<Rightarrow>
              if code = 200
              then (case body of
                      Some result \<Rightarrow> SendReply result
                    | None \<Rightarrow> CommunicationFailed text)
              else BadStatus code text
          | HttpTimeout \<Rightarrow> SendTimeout atype
          | HttpFailed e \<Rightarrow> CommunicationFailed e))"

section \<open>Orchestration engine (src/hub/services/orchestration\_engine.py)\<close>

text \<open>One collected response, and one entry of \<^verbatim>\<open>self.active_requests\<close>. The key
  \<^verbatim>\<open>responses\<close> is absent from a new entry and read with \<^verbatim>\<open>get("responses", [])\<close>;
  the empty list stands for the absent key. \<open>ar_target_agent\<close> is the registry's record
  as it was when the request was routed.\<close>

record response =
  rs_agent_id :: json
  rs_agent_type :: json
  rs_result :: json
  rs_received_at :: time

record active_request =
  ar_routing_id :: string
  ar_request_data :: request_data
  ar_target_agent :: agent
  ar_client_id :: string
  ar_started_at :: time
  ar_responses :: "response list"

type_synonym active_table = "string \<rightharpoonup> active_request"

text \<open>What one call draws from outside: the eight hex digits of the UUID, the clock (the
  clock reads of one call are taken as one instant), the policy's two random numbers, the
  transport's endpoints and network, the length of the serialized data package (the JSON
  library's), and the synthesizer.\<close>

record env =
  uuid_hex8 :: string
  clock :: time
  rand_estimated_time :: int
  rand_confidence :: rat
  spoke_endpoints :: "string \<rightharpoonup> string"
  http_post :: "string \<Rightarrow> dispatch \<Rightarrow> http_outcome"
  json_length :: "data_package \<Rightarrow> nat"
  synthesize_results :: "response list \<Rightarrow> json"

record routing_info =
  ri_routing_id :: string
  ri_target_agent :: string
  ri_agent_type :: string
  ri_reasoning :: string
  ri_estimated_time_minutes :: int
  ri_data_package_size :: nat
  ri_routed_at :: time
  ri_collaboration_result :: send_result

datatype route_result =
  NoAgents
| Routed routing_info

definition prepare_data_package :: "time \<Rightarrow> request_data \<Rightarrow> agent \<Rightarrow> string \<Rightarrow> data_package" where
  "prepare_data_package now rq target cid =
    (let data_requirements = rq_data_requirements rq;
         context = rq_context rq
     in \<lparr>dp_encrypted = False,
         dp_data =
           \<lparr>rd_client_id = cid,
            rd_request_context = context,
            rd_data_types = data_requirements,
            rd_documents = [],
            rd_financial_data =
              (if ''financial_data'' \<in> set data_requirements
               then Some [(''revenue'', dict_get_default context ''revenue'' (JInt 1000000)),
                          (''expenses'', dict_get_default context ''expenses'' (JInt 800000)),
                          (''period'', dict_get_default context ''period'' (JStr ''Q4 2024''))]
               else None),
            rd_marketing_data =
              (if ''marketing_data'' \<in> set data_requirements
               then Some [(''campaign_name'', dict_get_default context ''campaign_name'' (JStr ''Holiday Campaign'')),
                          (''spend'', dict_get_default context ''marketing_spend'' (JInt 50000)),
                          (''impressions'', dict_get_default context ''impressions'' (JInt 1000000))]
               else None)\<rparr>,
         dp_prepared_at = now\<rparr>)"

definition route_request ::
  "env \<Rightarrow> registry \<Rightarrow> request_data \<Rightarrow> string \<Rightarrow> active_table \<Rightarrow> active_table \<times> route_result" where
  "route_request e reg rq cid tbl =
    (let query = rq_query rq;
         requesting_agent = rq_requesting_agent rq;
         context = rq_context rq;
         available_agents =
           filter (\<lambda>a. Some (agent_id a) \<noteq> requesting_agent \<and> status a = ''verified'')
                  (get_all_agents reg cid)
     in case available_agents of
          [] \<Rightarrow> (tbl, NoAgents)
        | first # _ \<Rightarrow>
            let decision = route_to_agent (rand_estimated_time e) (rand_confidence e) query available_agents;
                (target, why) =
                  (case find (\<lambda>a. agent_type a = best_agent decision) available_agents of
                     Some a \<Rightarrow> (a, reasoning decision)
                   | None \<Rightarrow> (first, ''Primary agent not found, using fallback''));
                routing_id = ''route_'' @ uuid_hex8 e;
                package = prepare_data_package (clock e) rq target cid;
                tbl' = tbl(routing_id \<mapsto>
                         \<lparr>ar_routing_id = routing_id,
                          ar_request_data = rq,
                          ar_target_agent = target,
                          ar_client_id = cid,
                          ar_started_at = clock e,
                          ar_responses = []\<rparr>);
                collaboration_result =
                  send_to_agent (spoke_endpoints e) (http_post e) (agent_type target)
                    \<lparr>d_routing_id = routing_id,
                     d_query = query,
                     d_context = context,
                     d_data_package = package,
                     d_requesting_agent = requesting_agent,
                     d_priority = priority decision\<rparr>
            in (tbl', Routed
                  \<lparr>ri_routing_id = routing_id,
                   ri_target_agent = agent_id target,
                   ri_agent_type = agent_type target,
                   ri_reasoning = why,
                   ri_estimated_time_minutes = estimated_time decision,
                   ri_data_package_size = json_length e package,
                   ri_routed_at = clock e,
                   ri_collaboration_result = collaboration_result\<rparr>))"

definition needs_additional_collaboration :: "active_request \<Rightarrow> dict \<Rightarrow> py_error + bool" where
  "needs_additional_collaboration ar response_data =
    (case dict_get_default response_data ''result'' (JObj []) of
       JObj result \<Rightarrow>
         let conf = dict_get_default result ''confidence_score'' (JFloat 1)
         in if length (ar_responses ar) \<ge> 2 then Inr False
            else lt_float conf float_0_7
     | _ \<Rightarrow> Inl AttributeError)"

definition determine_next_agent :: "registry \<Rightarrow> active_request \<Rightarrow> py_error + agent option" where
  "determine_next_agent reg ar =
    (if \<not> list_all (\<lambda>r. hashable (rs_agent_id r)) (ar_responses ar) then Inl TypeError
     else
       let responded_agents = set (map rs_agent_id (ar_responses ar));
           available_agents = get_all_agents reg (ar_client_id ar);
           remaining_agents = filter (\<lambda>a. JStr (agent_id a) \<notin> responded_agents) available_agents
       in (case remaining_agents of
             a # _ \<Rightarrow> Inr (Some a)
           | [] \<Rightarrow> Inr None))"

record completion =
  c_routing_id :: string
  c_status :: string
  c_synthesis :: json
  c_responses :: "response list"
  c_completed_at :: time

text \<open>The four shapes of the reply: the dictionary \<^verbatim>\<open>{"error": "Unknown routing ID"}\<close>,
  the dictionary \<^verbatim>\<open>{"error": str(e)}\<close> of the exception handler, the reply of the
  nested \<^verbatim>\<open>route_request\<close>, and the completed collaboration.\<close>

datatype process_result =
  ErrorReply string
| ExceptionReply py_error
| Escalated route_result
| Completed completion

definition process_collaboration_response ::
  "env \<Rightarrow> registry \<Rightarrow> string \<Rightarrow> dict \<Rightarrow> active_table \<Rightarrow> active_table \<times> process_result" where
  "process_collaboration_response e reg routing_id response_data tbl =
    (case tbl routing_id of
       None \<Rightarrow> (tbl, ErrorReply ''Unknown routing ID'')
     | Some ar0 \<Rightarrow>
         let ar = ar0\<lparr>ar_responses := ar_responses ar0 @
                    [\<lparr>rs_agent_id = dict_get response_data ''agent_id'',
                      rs_agent_type = dict_get response_data ''agent_type'',
                      rs_result = dict_get response_data ''result'',
                      rs_received_at = clock e\<rparr>]\<rparr>;
             tbl1 = tbl(routing_id \<mapsto> ar);
             finish = (tbl1(routing_id := None),
                       Completed \<lparr>c_routing_id = routing_id,
                                  c_status = ''completed'',
                                  c_synthesis = synthesize_results e (ar_responses ar),
                                  c_responses = ar_responses ar,
                                  c_completed_at = clock e\<rparr>)
         in (case needs_additional_collaboration ar response_data of
               Inl err \<Rightarrow> (tbl1, ExceptionReply err)
             | Inr False \<Rightarrow> finish
             | Inr True \<Rightarrow>
                 (case determine_next_agent reg ar of
                    Inl err \<Rightarrow> (tbl1, ExceptionReply err)
                  | Inr None \<Rightarrow> finish
                  | Inr (Some next_agent) \<Rightarrow>
                      (case route_request e reg (ar_request_data ar) (ar_client_id ar) tbl1 of
                         (tbl2, r) \<Rightarrow> (tbl2, Escalated r)))))"

subsection \<open>Notions used in the statements\<close>

text \<open>A call of \<^verbatim>\<open>route_request\<close> whose dispatch failed: it got as far as
  \<^verbatim>\<open>send_to_agent\<close>, and that returned one of its error dictionaries.\<close>

fun dispatch_failed :: "route_result \<Rightarrow> bool" where
  "dispatch_failed NoAgents = False"
| "dispatch_failed (Routed info) = is_send_error (ri_collaboration_result info)"

text \<open>The record \<^verbatim>\<open>process_collaboration_response\<close> appends for a posted response.\<close>

definition mk_response :: "env \<Rightarrow> dict \<Rightarrow> response" where
  "mk_response e response_data =
     \<lparr>rs_agent_id = dict_get response_data ''agent_id'',
      rs_agent_type = dict_get response_data ''agent_type'',
      rs_result = dict_get response_data ''result'',
      rs_received_at = clock e\<rparr>"

text \<open>A post that was answered by re-routing the request.\<close>

fun is_escalated :: "process_result \<Rightarrow> bool" where
  "is_escalated (Escalated r) = True"
| "is_escalated r = False"

text \<open>A collaboration on one routing id: the responses posted to it, one after the other,
  each with what the call draws from outside and the registry as it is then.\<close>

type_synonym post = "env \<times> registry \<times> dict"

fun run_posts :: "string \<Rightarrow> post list \<Rightarrow> active_table \<Rightarrow> active_table \<times> process_result list" where
  "run_posts rid [] tbl = (tbl, [])"
| "run_posts rid ((e, reg, response_data) # ps) tbl =
     (case process_collaboration_response e reg rid response_data tbl of
        (tbl1, r) \<Rightarrow> (case run_posts rid ps tbl1 of (tbl2, rs) \<Rightarrow> (tbl2, r # rs)))"

text \<open>The routing id drawn while handling the post differs from the one posted to.\<close>

definition fresh_id :: "string \<Rightarrow> post \<Rightarrow> bool" where
  "fresh_id rid p = (''route_'' @ uuid_hex8 (fst p) \<noteq> rid)"

text \<open>The agent an escalation dispatched to.\<close>

fun escalated_target :: "process_result \<Rightarrow> string option" where
  "escalated_target (Escalated (Routed info)) = Some (ri_target_agent info)"
| "escalated_target r = None"

section \<open>JSON text\<close>

text \<open>
  \<^verbatim>\<open>json.dumps\<close> with Python's default separators and \<^verbatim>\<open>ensure_ascii\<close>; a
  character is a code point below 256. How a float prints is the library's business and
  is a parameter. \<^verbatim>\<open>sort_keys=True\<close> orders the keys of every dictionary.
\<close>

definition digit_char :: "nat \<Rightarrow> char" where
  "digit_char d = char_of (48 + d)"

function show_nat :: "nat \<Rightarrow> string" where
  "show_nat n = (if n < 10 then [digit_char n] else show_nat (n div 10) @ [digit_char (n mod 10)])"
  by pat_completeness auto
termination
  by (relation "measure id") auto

declare show_nat.simps [simp del]

definition show_int :: "int \<Rightarrow> string" where
  "show_int i = (if i < 0 then CHR ''-'' # show_nat (nat (- i)) else show_nat (nat i))"

definition hex_char :: "nat \<Rightarrow> char" where
  "hex_char d = (if d < 10 then char_of (48 + d) else char_of (87 + d))"

definition escape_char :: "char \<Rightarrow> string" where
  "escape_char c =
     (let n = (of_char c :: nat) in
      if n = 34 then [char_of (92::nat), char_of (34::nat)]
      else if n = 92 then [char_of (92::nat), char_of (92::nat)]
      else if n = 10 then [char_of (92::nat), CHR ''n'']
      else if n = 13 then [char_of (92::nat), CHR ''r'']
      else if n = 9 then [char_of (92::nat), CHR ''t'']
      else if n = 8 then [char_of (92::nat), CHR ''b'']
      else if n = 12 then [char_of (92::nat), CHR ''f'']
      else if 32 \<le> n \<and> n \<le> 126 then [c]
      else [char_of (92::nat), CHR ''u'', CHR ''0'', CHR ''0'', hex_char (n div 16), hex_char (n mod 16)])"

definition quote :: "string \<Rightarrow> string" where
  "quote s = char_of (34::nat) # concat (map escape_char s) @ [char_of (34::nat)]"

fun join :: "string \<Rightarrow> string list \<Rightarrow> string" where
  "join sep [] = []"
| "join sep [x] = x"
| "join sep (x # y # ys) = x @ sep @ join sep (y # ys)"

fun sort_keys :: "json \<Rightarrow> json" where
  "sort_keys (JList xs) = JList (map sort_keys xs)"
| "sort_keys (JObj kvs) = JObj (sort_key fst (map (\<lambda>kv. (fst kv, sort_keys (snd kv))) kvs))"
| "sort_keys v = v"

fun dumps_plain :: "(rat \<Rightarrow> string) \<Rightarrow> json \<Rightarrow> string" where
  "dumps_plain fr JNull = ''null''"
| "dumps_plain fr (JBool b) = (if b then ''true'' else ''false'')"
| "dumps_plain fr (JInt i) = show_int i"
| "dumps_plain fr (JFloat q) = fr q"
| "dumps_plain fr (JStr s) = quote s"
| "dumps_plain fr (JList xs) = ''['' @ join '', '' (map (dumps_plain fr) xs) @ '']''"
| "dumps_plain fr (JObj kvs) =
     ''{'' @ join '', '' (map (\<lambda>kv. quote (fst kv) @ '': '' @ dumps_plain fr (snd kv)) kvs) @ ''}''"

definition json_dumps :: "(rat \<Rightarrow> string) \<Rightarrow> bool \<Rightarrow> json \<Rightarrow> string" where
  "json_dumps fr sorted_keys v = dumps_plain fr (if sorted_keys then sort_keys v else v)"

section \<open>Secure messaging (src/shared/secure\_messaging.py)\<close>

text \<open>
  What the class calls and does not define: the key store (shared/tee\_key\_manager.py is
  not among the sources at hand), AES-GCM, base64, the JSON parser, the printing of
  floats, and the conversion between instants and ISO 8601 text. They are parameters.
  \<^item> \<open>verify_signature\<close> gets the signature and the key as they stand in the envelope.
  \<^item> \<open>aes_gcm_encrypt key iv plaintext\<close> is the ciphertext and the tag;
    \<open>aes_gcm_decrypt key iv tag ciphertext\<close> is the decoded plaintext, or \<open>None\<close> when
    decryption or decoding raises.
  \<^item> \<open>b64decode\<close> and \<open>json_loads\<close> are \<open>None\<close> when the library raises.
  \<^item> \<open>fromisoformat\<close> gives the date and time fields of the text as an instant; the
    offset it may carry is not looked at, since \<^verbatim>\<open>_verify_timestamp\<close> gives the current
    UTC time the very same offset before it subtracts.
\<close>

record lib =
  sign_message :: "string \<Rightarrow> string"
  verify_signature :: "string \<Rightarrow> json \<Rightarrow> json \<Rightarrow> bool"
  get_public_key_pem :: string
  get_key_fingerprint :: string
  aes_gcm_encrypt :: "string \<Rightarrow> string \<Rightarrow> string \<Rightarrow> string \<times> string"
  aes_gcm_decrypt :: "string \<Rightarrow> string \<Rightarrow> string \<Rightarrow> string \<Rightarrow> string option"
  b64encode :: "string \<Rightarrow> string"
  b64decode :: "string \<Rightarrow> string option"
  json_loads :: "string \<Rightarrow> json option"
  float_repr :: "rat \<Rightarrow> string"
  isoformat :: "time \<Rightarrow> string"
  fromisoformat :: "string \<Rightarrow> time option"

text \<open>What one call of \<^verbatim>\<open>create_secure_message\<close> draws: the environment variable
  \<^verbatim>\<open>AGENT_ID\<close> (or \<^verbatim>\<open>unknown\<close>), the clock, \<^verbatim>\<open>secrets.token_hex(16)\<close>, and the
  fresh AES key and IV.\<close>

record draw =
  dr_agent_id :: string
  dr_utcnow :: time
  dr_nonce :: string
  dr_key :: string
  dr_iv :: string

definition get_timestamp :: "lib \<Rightarrow> time \<Rightarrow> string" where
  "get_timestamp l t = isoformat l t @ ''Z''"

definition encrypt_payload :: "lib \<Rightarrow> string \<Rightarrow> string \<Rightarrow> string \<Rightarrow> string" where
  "encrypt_payload l key iv plaintext =
     (case aes_gcm_encrypt l key iv plaintext of
        (ciphertext, tag) \<Rightarrow>
          b64encode l (json_dumps (float_repr l) False
            (JObj [(''key'', JStr (b64encode l key)),
                   (''iv'', JStr (b64encode l iv)),
                   (''ciphertext'', JStr (b64encode l ciphertext)),
                   (''tag'', JStr (b64encode l tag))])))"

text \<open>\<^verbatim>\<open>base64.b64decode(d[k])\<close> inside the \<^verbatim>\<open>try\<close> of \<^verbatim>\<open>_decrypt_payload\<close>:
  \<open>None\<close> for a missing key, a value that is not a string, or undecodable text.\<close>

definition b64_field :: "lib \<Rightarrow> dict \<Rightarrow> string \<Rightarrow> string option" where
  "b64_field l d k = (case map_of d k of Some (JStr s) \<Rightarrow> b64decode l s | _ \<Rightarrow> None)"

definition decrypt_payload :: "lib \<Rightarrow> json \<Rightarrow> string option" where
  "decrypt_payload l encrypted_payload =
     (case encrypted_payload of
        JStr ep \<Rightarrow>
          (case b64decode l ep of
             None \<Rightarrow> None
           | Some raw \<Rightarrow>
               (case json_loads l raw of
                  Some (JObj encrypted_data) \<Rightarrow>
                    (case (b64_field l encrypted_data ''key'', b64_field l encrypted_data ''iv'',
                           b64_field l encrypted_data ''ciphertext'', b64_field l encrypted_data ''tag'') of
                       (Some key, Some iv, Some ciphertext, Some tag) \<Rightarrow>
                         aes_gcm_decrypt l key iv tag ciphertext
                     | _ \<Rightarrow> None)
                | _ \<Rightarrow> None))
      | _ \<Rightarrow> None)"

definition create_secure_message ::
  "lib \<Rightarrow> draw \<Rightarrow> string \<Rightarrow> string \<Rightarrow> json \<Rightarrow> string option \<Rightarrow> dict" where
  "create_secure_message l d recipient_id message_type payload recipient_public_key =
     (let message = JObj [(''sender_id'', JStr (dr_agent_id d)),
                          (''recipient_id'', JStr recipient_id),
                          (''message_type'', JStr message_type),
                          (''timestamp'', JStr (get_timestamp l (dr_utcnow d))),
                          (''nonce'', JStr (dr_nonce d)),
                          (''payload'', payload)];
          message_json = json_dumps (float_repr l) True message;
          signature = sign_message l message_json
      in if \<not> falsy recipient_public_key
         then [(''encrypted'', JBool True),
               (''encrypted_payload'', JStr (encrypt_payload l (dr_key d) (dr_iv d) message_json)),
               (''signature'', JStr signature),
               (''sender_public_key'', JStr (get_public_key_pem l)),
               (''sender_fingerprint'', JStr (get_key_fingerprint l))]
         else [(''encrypted'', JBool False),
               (''message'', message),
               (''signature'', JStr signature),
               (''sender_public_key'', JStr (get_public_key_pem l)),
               (''sender_fingerprint'', JStr (get_key_fingerprint l))])"

text \<open>\<^verbatim>\<open>str.replace('Z', '+00:00')\<close> and \<^verbatim>\<open>str.endswith('Z')\<close>.\<close>

definition replace_Z :: "string \<Rightarrow> string" where
  "replace_Z s = concat (map (\<lambda>c. if c = CHR ''Z'' then ''+00:00'' else [c]) s)"

definition ends_with_Z :: "string \<Rightarrow> bool" where
  "ends_with_Z s = (s \<noteq> [] \<and> last s = CHR ''Z'')"

text \<open>The text handed to \<^verbatim>\<open>fromisoformat\<close>: a final \<^verbatim>\<open>Z\<close> becomes \<^verbatim>\<open>+00:00\<close>,
  then every \<^verbatim>\<open>Z\<close> left does.\<close>

definition normalize_timestamp :: "string \<Rightarrow> string" where
  "normalize_timestamp s = replace_Z (if ends_with_Z s then butlast s @ ''+00:00'' else s)"

text \<open>The age of a timestamp in microseconds, as \<^verbatim>\<open>_verify_timestamp\<close> computes it;
  \<open>None\<close> where the source raises (the value is not a string, or does not parse).\<close>

definition timestamp_age :: "lib \<Rightarrow> time \<Rightarrow> json \<Rightarrow> int option" where
  "timestamp_age l current_time timestamp =
     (case timestamp of
        JStr s \<Rightarrow>
          (case fromisoformat l (normalize_timestamp s) of
             None \<Rightarrow> None
           | Some msg_time \<Rightarrow> Some (current_time - msg_time))
      | _ \<Rightarrow> None)"

definition verify_timestamp :: "lib \<Rightarrow> time \<Rightarrow> json \<Rightarrow> int \<Rightarrow> bool" where
  "verify_timestamp l current_time timestamp max_age_seconds =
     (case timestamp_age l current_time timestamp of
        None \<Rightarrow> False
      | Some age \<Rightarrow> 0 \<le> age \<and> age \<le> max_age_seconds * 1000000)"

text \<open>The pair \<^verbatim>\<open>(True, message)\<close>, a pair \<^verbatim>\<open>(False, {"error": text})\<close> with one of
  the six texts of the source, or the pair the exception handler returns.\<close>

datatype verify_result =
  Verified json
| Refused string
| Raised py_error

text \<open>The checks after the signature: timestamp, then nonce. A message that is not a
  dictionary has no \<^verbatim>\<open>get\<close>.\<close>

definition check_fresh :: "lib \<Rightarrow> time \<Rightarrow> json \<Rightarrow> verify_result" where
  "check_fresh l current_time message =
     (case message of
        JObj m \<Rightarrow>
          if \<not> verify_timestamp l current_time (dict_get m ''timestamp'') 300
          then Refused ''Message timestamp too old''
          else if \<not> truthy (dict_get m ''nonce'')
          then Refused ''Missing message nonce''
          else Verified message
      | _ \<Rightarrow> Raised AttributeError)"

definition verify_secure_message :: "lib \<Rightarrow> time \<Rightarrow> dict \<Rightarrow> verify_result" where
  "verify_secure_message l current_time secure_message =
     (let signature = dict_get secure_message ''signature'';
          sender_public_key = dict_get secure_message ''sender_public_key''
      in if \<not> truthy signature \<or> \<not> truthy sender_public_key
         then Refused ''Missing signature or public key''
         else if truthy (dict_get secure_message ''encrypted'')
         then (case map_of secure_message ''encrypted_payload'' of
                 None \<Rightarrow> Raised KeyError
               | Some ep \<Rightarrow>
                   (case decrypt_payload l ep of
                      None \<Rightarrow> Refused ''Failed to decrypt message''
                    | Some decrypted_json \<Rightarrow>
                        if decrypted_json = [] then Refused ''Failed to decrypt message''
                        else (case json_loads l decrypted_json of
                                None \<Rightarrow> Raised ValueError
                              | Some message \<Rightarrow>
                                  if \<not> verify_signature l decrypted_json signature sender_public_key
                                  then Refused ''Invalid signature''
                                  else check_fresh l current_time message)))
         else (let message = dict_get secure_message ''message''
               in if \<not> truthy message then Refused ''Missing message content''
                  else if \<not> verify_signature l (json_dumps (float_repr l) True message)
                             signature sender_public_key
                  then Refused ''Invalid signature''
                  else check_fresh l current_time message))"

subsection \<open>Notions used in the statements\<close>

text \<open>The message \<^verbatim>\<open>create_secure_message\<close> signs.\<close>

definition inner_message :: "lib \<Rightarrow> draw \<Rightarrow> string \<Rightarrow> string \<Rightarrow> json \<Rightarrow> json" where
  "inner_message l d recipient_id message_type payload =
     JObj [(''sender_id'', JStr (dr_agent_id d)),
           (''recipient_id'', JStr recipient_id),
           (''message_type'', JStr message_type),
           (''timestamp'', JStr (get_timestamp l (dr_utcnow d))),
           (''nonce'', JStr (dr_nonce d)),
           (''payload'', payload)]"

text \<open>Equality of Python values built from dictionaries with distinct keys: the order of
  the keys does not count.\<close>

definition same_json :: "json \<Rightarrow> json \<Rightarrow> bool" where
  "same_json a b = (sort_keys a = sort_keys b)"

text \<open>The instant a message's timestamp denotes.\<close>

definition message_time :: "lib \<Rightarrow> json \<Rightarrow> time option" where
  "message_time l message =
     (case message of
        JObj m \<Rightarrow> (case dict_get m ''timestamp'' of
                     JStr s \<Rightarrow> fromisoformat l (normalize_timestamp s)
                   | _ \<Rightarrow> None)
      | _ \<Rightarrow> None)"

text \<open>The part of \<^verbatim>\<open>verify_secure_message\<close> before the timestamp is read: a reply, or
  the message whose signature has been checked.\<close>

definition open_envelope :: "lib \<Rightarrow> dict \<Rightarrow> verify_result + json" where
  "open_envelope l secure_message =
     (let signature = dict_get secure_message ''signature'';
          sender_public_key = dict_get secure_message ''sender_public_key''
      in if \<not> truthy signature \<or> \<not> truthy sender_public_key
         then Inl (Refused ''Missing signature or public key'')
         else if truthy (dict_get secure_message ''encrypted'')
         then (case map_of secure_message ''encrypted_payload'' of
                 None \<Rightarrow> Inl (Raised KeyError)
               | Some ep \<Rightarrow>
                   (case decrypt_payload l ep of
                      None \<Rightarrow> Inl (Refused ''Failed to decrypt message'')
                    | Some decrypted_json \<Rightarrow>
                        if decrypted_json = [] then Inl (Refused ''Failed to decrypt message'')
                        else (case json_loads l decrypted_json of
                                None \<Rightarrow> Inl (Raised ValueError)
                              | Some message \<Rightarrow>
                                  if \<not> verify_signature l decrypted_json signature sender_public_key
                                  then Inl (Refused ''Invalid signature'')
                                  else Inr message)))
         else (let message = dict_get secure_message ''message''
               in if \<not> truthy message then Inl (Refused ''Missing message content'')
                  else if \<not> verify_signature l (json_dumps (float_repr l) True message)
                             signature sender_public_key
                  then Inl (Refused ''Invalid signature'')
                  else Inr message))"

text \<open>A correct key store: what it signs verifies under its own public key; a signature
  and the PEM text are not empty.\<close>

definition keystore_ok :: "lib \<Rightarrow> bool" where
  "keystore_ok l \<longleftrightarrow>
     (\<forall>m. verify_signature l m (JStr (sign_message l m)) (JStr (get_public_key_pem l))
          \<and> sign_message l m \<noteq> [])
     \<and> get_public_key_pem l \<noteq> []"

text \<open>The clock's text for instant \<open>t\<close> reads back as \<open>t\<close>.\<close>

definition clock_ok :: "lib \<Rightarrow> time \<Rightarrow> bool" where
  "clock_ok l t \<longleftrightarrow>
     CHR ''Z'' \<notin> set (isoformat l t) \<and> fromisoformat l (isoformat l t @ ''+00:00'') = Some t"

text \<open>The libraries undo on the way in what they did on the way out, for the key, the IV
  and one plaintext: base64, AES-GCM, and the JSON of the ciphertext record.\<close>

definition sealing_ok :: "lib \<Rightarrow> string \<Rightarrow> string \<Rightarrow> string \<Rightarrow> bool" where
  "sealing_ok l key iv plaintext \<longleftrightarrow>
     (let ct = fst (aes_gcm_encrypt l key iv plaintext);
          tag = snd (aes_gcm_encrypt l key iv plaintext);
          record_json = JObj [(''key'', JStr (b64encode l key)),
                              (''iv'', JStr (b64encode l iv)),
                              (''ciphertext'', JStr (b64encode l ct)),
                              (''tag'', JStr (b64encode l tag))]
      in list_all (\<lambda>x. b64decode l (b64encode l x) = Some x)
           [key, iv, ct, tag, json_dumps (float_repr l) False record_json]
         \<and> aes_gcm_decrypt l key iv tag ct = Some plaintext
         \<and> json_loads l (json_dumps (float_repr l) False record_json) = Some record_json)"

text \<open>The JSON parser reads the canonical text of a message back: the same dictionaries,
  their keys in the order of the text.\<close>

definition parses_back :: "lib \<Rightarrow> json \<Rightarrow> bool" where
  "parses_back l message \<longleftrightarrow>
     json_loads l (json_dumps (float_repr l) True message) = Some (sort_keys message)"

section \<open>A reference library\<close>

text \<open>
  An instance of the parameters of the secure-messaging model, to run it on concrete
  envelopes: a JSON parser for the texts without floats, ISO 8601 date-times as
  \<^verbatim>\<open>isoformat\<close> writes them, a transparent signature and a reversible cipher.
\<close>

subsection \<open>Parsing JSON\<close>

text \<open>White space between tokens, decimal digits, hexadecimal digits.\<close>

definition is_ws :: "char \<Rightarrow> bool" where
  "is_ws c = ((of_char c :: nat) \<in> {32, 10, 13, 9})"

fun skip_ws :: "string \<Rightarrow> string" where
  "skip_ws [] = []"
| "skip_ws (c # cs) = (if is_ws c then skip_ws cs else c # cs)"

definition is_digit :: "char \<Rightarrow> bool" where
  "is_digit c = ((48::nat) \<le> of_char c \<and> of_char c \<le> (57::nat))"

definition digits_value :: "string \<Rightarrow> nat" where
  "digits_value ds = foldl (\<lambda>a c. 10 * a + (of_char c - 48)) 0 ds"

definition hex_value :: "char \<Rightarrow> nat option" where
  "hex_value c =
     (let n = (of_char c :: nat) in
      if 48 \<le> n \<and> n \<le> 57 then Some (n - 48)
      else if 97 \<le> n \<and> n \<le> 102 then Some (n - 87)
      else if 65 \<le> n \<and> n \<le> 70 then Some (n - 55)
      else None)"

text \<open>The character after a backslash in a string.\<close>

definition unescape :: "char \<Rightarrow> char option" where
  "unescape e =
     (if e = CHR 0x22 \<or> e = CHR 0x5C \<or> e = CHR ''/'' then Some e
      else if e = CHR ''n'' then Some (CHR 0x0A)
      else if e = CHR ''r'' then Some (CHR 0x0D)
      else if e = CHR ''t'' then Some (CHR 0x09)
      else if e = CHR ''b'' then Some (CHR 0x08)
      else if e = CHR ''f'' then Some (CHR 0x0C)
      else None)"

definition cons_fst :: "char \<Rightarrow> (string \<times> string) option \<Rightarrow> (string \<times> string) option" where
  "cons_fst c r = map_option (\<lambda>p. (c # fst p, snd p)) r"

text \<open>A string, read from behind its opening quote: the text and what follows the closing
  quote. Control characters must be escaped; a four-digit hexadecimal escape is read below 256.\<close>

fun parse_string :: "string \<Rightarrow> (string \<times> string) option" where
  "parse_string [] = None"
| "parse_string (c # cs) =
     (if c = CHR 0x22 then Some ([], cs)
      else if (of_char c :: nat) < 32 then None
      else if c = CHR 0x5C then
        (case cs of
           [] \<Rightarrow> None
         | e # r \<Rightarrow>
             if e = CHR ''u'' then
               (case r of
                  a # b # h # lo # r' \<Rightarrow>
                    (case (hex_value a, hex_value b, hex_value h, hex_value lo) of
                       (Some x, Some y, Some hv, Some lv) \<Rightarrow>
                         if x = 0 \<and> y = 0 then cons_fst (char_of (16 * hv + lv)) (parse_string r')
                         else None
                     | _ \<Rightarrow> None)
                | _ \<Rightarrow> None)
             else (case unescape e of
                     None \<Rightarrow> None
                   | Some ch \<Rightarrow> cons_fst ch (parse_string r)))
      else cons_fst c (parse_string cs))"

text \<open>An integer; a number with a fraction or an exponent is not read.\<close>

definition parse_number :: "bool \<Rightarrow> string \<Rightarrow> (json \<times> string) option" where
  "parse_number neg s =
     (let ds = takeWhile is_digit s; r = dropWhile is_digit s
      in if ds = [] \<or> (length ds > 1 \<and> hd ds = CHR ''0'') then None
         else if r \<noteq> [] \<and> hd r \<in> {CHR ''.'', CHR ''e'', CHR ''E''} then None
         else Some (JInt (if neg then - int (digits_value ds) else int (digits_value ds)), r))"

text \<open>\<^verbatim>\<open>d[k] = v\<close>: a key that is there keeps its place.\<close>

definition dict_set :: "dict \<Rightarrow> string \<Rightarrow> json \<Rightarrow> dict" where
  "dict_set d k v =
     (if k \<in> fst ` set d then map (\<lambda>kv. if fst kv = k then (k, v) else kv) d else d @ [(k, v)])"

text \<open>Values, the elements of an array and the members of an object, by recursive descent.
  The first argument bounds the depth of the recursion; the length of the text is enough.\<close>

fun parse_value :: "nat \<Rightarrow> string \<Rightarrow> (json \<times> string) option"
  and parse_elems :: "nat \<Rightarrow> json list \<Rightarrow> string \<Rightarrow> (json \<times> string) option"
  and parse_members :: "nat \<Rightarrow> dict \<Rightarrow> string \<Rightarrow> (json \<times> string) option" where
  "parse_value 0 s = None"
| "parse_value (Suc n) s =
     (let t = skip_ws s in
      if starts_with ''null'' t then Some (JNull, drop 4 t)
      else if starts_with ''true'' t then Some (JBool True, drop 4 t)
      else if starts_with ''false'' t then Some (JBool False, drop 5 t)
      else (case t of
              [] \<Rightarrow> None
            | c # r \<Rightarrow>
                if c = CHR 0x22 then map_option (\<lambda>p. (JStr (fst p), snd p)) (parse_string r)
                else if c = CHR ''['' then
                  (let r1 = skip_ws r
                   in if starts_with '']'' r1 then Some (JList [], drop 1 r1) else parse_elems n [] r1)
                else if c = CHR ''{'' then
                  (let r1 = skip_ws r
                   in if starts_with ''}'' r1 then Some (JObj [], drop 1 r1) else parse_members n [] r1)
                else if c = CHR ''-'' then parse_number True r
                else parse_number False t))"
| "parse_elems 0 acc s = None"
| "parse_elems (Suc n) acc s =
     (case parse_value n s of
        None \<Rightarrow> None
      | Some (v, r) \<Rightarrow>
          (let r1 = skip_ws r
           in if starts_with '','' r1 then parse_elems n (acc @ [v]) (drop 1 r1)
              else if starts_with '']'' r1 then Some (JList (acc @ [v]), drop 1 r1)
              else None))"
| "parse_members 0 acc s = None"
| "parse_members (Suc n) acc s =
     (let t = skip_ws s in
      if \<not> starts_with [CHR 0x22] t then None
      else (case parse_string (drop 1 t) of
              None \<Rightarrow> None
            | Some (k, r) \<Rightarrow>
                (let r1 = skip_ws r
                 in if \<not> starts_with '':'' r1 then None
                    else (case parse_value n (drop 1 r1) of
                            None \<Rightarrow> None
                          | Some (v, r2) \<Rightarrow>
                              (let r3 = skip_ws r2
                               in if starts_with '','' r3 then parse_members n (dict_set acc k v) (drop 1 r3)
                                  else if starts_with ''}'' r3 then Some (JObj (dict_set acc k v), drop 1 r3)
                                  else None)))))"

definition json_parse :: "string \<Rightarrow> json option" where
  "json_parse s =
     (case parse_value (Suc (length s)) s of
        None \<Rightarrow> None
      | Some (v, r) \<Rightarrow> if skip_ws r = [] then Some v else None)"

subsection \<open>ISO 8601 instants\<close>

text \<open>Days since 1970-01-01 of a date of the proleptic Gregorian calendar, and back.\<close>

definition pad :: "nat \<Rightarrow> nat \<Rightarrow> string" where
  "pad width n = replicate (width - length (show_nat n)) CHR ''0'' @ show_nat n"

definition days_from_civil :: "int \<Rightarrow> int \<Rightarrow> int \<Rightarrow> int" where
  "days_from_civil y m d =
     (let y1 = (if m \<le> 2 then y - 1 else y);
          era = y1 div 400;
          yoe = y1 - era * 400;
          doy = (153 * (if m > 2 then m - 3 else m + 9) + 2) div 5 + d - 1;
          doe = yoe * 365 + yoe div 4 - yoe div 100 + doy
      in era * 146097 + doe - 719468)"

definition civil_from_days :: "int \<Rightarrow> int \<times> int \<times> int" where
  "civil_from_days z0 =
     (let z = z0 + 719468;
          era = z div 146097;
          doe = z - era * 146097;
          yoe = (doe - doe div 1460 + doe div 36524 - doe div 146096) div 365;
          doy = doe - (365 * yoe + yoe div 4 - yoe div 100);
          mp = (5 * doy + 2) div 153;
          d = doy - (153 * mp + 2) div 5 + 1;
          m = (if mp < 10 then mp + 3 else mp - 9);
          y = yoe + era * 400 + (if m \<le> 2 then 1 else 0)
      in (y, m, d))"

text \<open>\<^verbatim>\<open>datetime.isoformat()\<close> of a naive date-time: seconds, and microseconds unless they
  are zero.\<close>

definition iso_format :: "time \<Rightarrow> string" where
  "iso_format t =
     (let secs = t div 1000000; us = t mod 1000000;
          days = secs div 86400; sod = secs mod 86400
      in case civil_from_days days of
           (y, m, d) \<Rightarrow>
             pad 4 (nat y) @ ''-'' @ pad 2 (nat m) @ ''-'' @ pad 2 (nat d) @ ''T''
             @ pad 2 (nat (sod div 3600)) @ '':'' @ pad 2 (nat (sod mod 3600 div 60)) @ '':''
             @ pad 2 (nat (sod mod 60))
             @ (if us = 0 then [] else ''.'' @ pad 6 (nat us)))"

definition num :: "string \<Rightarrow> int option" where
  "num s = (if s \<noteq> [] \<and> list_all is_digit s then Some (int (digits_value s)) else None)"

definition days_in_month :: "int \<Rightarrow> int \<Rightarrow> int" where
  "days_in_month y m =
     (if m = 2 then (if y mod 4 = 0 \<and> (y mod 100 \<noteq> 0 \<or> y mod 400 = 0) then 29 else 28)
      else if m \<in> {4, 6, 9, 11} then 30 else 31)"

definition is_offset :: "string \<Rightarrow> bool" where
  "is_offset s =
     (length s = 6 \<and> hd s \<in> {CHR ''+'', CHR ''-''} \<and> s ! 3 = CHR '':''
      \<and> (case (num (take 2 (drop 1 s)), num (drop 4 s)) of
            (Some h, Some m) \<Rightarrow> h < 24 \<and> m < 60
          | _ \<Rightarrow> False))"

text \<open>\<^verbatim>\<open>datetime.fromisoformat\<close> on such texts, with or without an offset \<^verbatim>\<open>+HH:MM\<close>: the
  instant the date and time fields denote.\<close>

definition iso_parse :: "string \<Rightarrow> time option" where
  "iso_parse s =
     (if length s < 19 \<or> s ! 4 \<noteq> CHR ''-'' \<or> s ! 7 \<noteq> CHR ''-'' \<or> s ! 13 \<noteq> CHR '':''
         \<or> s ! 16 \<noteq> CHR '':'' then None
      else
        (case (num (take 4 s), num (take 2 (drop 5 s)), num (take 2 (drop 8 s)),
               num (take 2 (drop 11 s)), num (take 2 (drop 14 s)), num (take 2 (drop 17 s))) of
           (Some y, Some m, Some d, Some h, Some mi, Some sec) \<Rightarrow>
             (let rest = drop 19 s;
                  frac = (if starts_with ''.'' rest then num (take 6 (drop 1 rest)) else Some 0);
                  tail = (if starts_with ''.'' rest then drop 7 rest else rest)
              in if y < 1 \<or> m < 1 \<or> 12 < m \<or> d < 1 \<or> days_in_month y m < d
                    \<or> 24 \<le> h \<or> 60 \<le> mi \<or> 60 \<le> sec then None
                 else if starts_with ''.'' rest \<and> length (take 6 (drop 1 rest)) \<noteq> 6 then None
                 else if tail \<noteq> [] \<and> \<not> is_offset tail then None
                 else (case frac of
                         None \<Rightarrow> None
                       | Some us \<Rightarrow>
                           Some ((((days_from_civil y m d * 24 + h) * 60 + mi) * 60 + sec) * 1000000 + us)))
         | _ \<Rightarrow> None))"

section \<open>Test data\<close>

subsection \<open>Envelopes\<close>

text \<open>
  The reference instance of the libraries and the key store: a signature that is the
  signed text in brackets, a cipher that reverses the plaintext and tags it with key and
  IV, base64 as the identity, the JSON parser and the ISO 8601 functions above. Floats do
  not occur in the test envelopes.
\<close>

definition ref_lib :: lib where
  "ref_lib =
     \<lparr>sign_message = (\<lambda>m. ''signed['' @ m @ '']''),
      verify_signature = (\<lambda>m s k. s = JStr (''signed['' @ m @ '']'') \<and> k = JStr ''PEM''),
      get_public_key_pem = ''PEM'',
      get_key_fingerprint = ''FP'',
      aes_gcm_encrypt = (\<lambda>key iv plaintext. (rev plaintext, key @ iv)),
      aes_gcm_decrypt = (\<lambda>key iv tag ciphertext. if tag = key @ iv then Some (rev ciphertext) else None),
      b64encode = (\<lambda>s. s),
      b64decode = (\<lambda>s. Some s),
      json_loads = json_parse,
      float_repr = (\<lambda>q. ''0.0''),
      isoformat = iso_format,
      fromisoformat = iso_parse\<rparr>"

text \<open>2026-01-01T00:00:00 UTC; a sender; a payload; the message built at instant \<open>t\<close>, the
  envelope around it without and with encryption.\<close>

definition new_year :: time where
  "new_year = 1767225600000000"

definition draw_at :: "time \<Rightarrow> draw" where
  "draw_at t = \<lparr>dr_agent_id = ''finance-1'', dr_utcnow = t,
                dr_nonce = ''000102030405060708090a0b0c0d0e0f'',
                dr_key = ''K'', dr_iv = ''IV''\<rparr>"

definition task_payload :: json where
  "task_payload = JObj [(''task'', JStr ''Compute Q4 ROI''), (''timeout_seconds'', JInt 60)]"

definition task_message :: "time \<Rightarrow> json" where
  "task_message t = inner_message ref_lib (draw_at t) ''hub'' ''request'' task_payload"

definition plain_envelope :: "time \<Rightarrow> dict" where
  "plain_envelope t = create_secure_message ref_lib (draw_at t) ''hub'' ''request'' task_payload None"

definition sealed_envelope :: "time \<Rightarrow> dict" where
  "sealed_envelope t =
     create_secure_message ref_lib (draw_at t) ''hub'' ''request'' task_payload (Some ''HUB-PEM'')"

text \<open>The text of the message with its keys in insertion order, its canonical text, and an
  encrypted envelope around the former with a signature of choice.\<close>

definition loose_text :: "time \<Rightarrow> string" where
  "loose_text t = json_dumps (float_repr ref_lib) False (task_message t)"

definition canonical_text :: "time \<Rightarrow> string" where
  "canonical_text t = json_dumps (float_repr ref_lib) True (task_message t)"

definition loose_envelope :: "time \<Rightarrow> string \<Rightarrow> dict" where
  "loose_envelope t sig =
     [(''encrypted'', JBool True),
      (''encrypted_payload'', JStr (encrypt_payload ref_lib ''K'' ''IV'' (loose_text t))),
      (''signature'', JStr sig),
      (''sender_public_key'', JStr ''PEM''),
      (''sender_fingerprint'', JStr ''FP'')]"

subsection \<open>Registries\<close>

text \<open>A verifier that accepts every quote; \<open>finance-1\<close> registered under client \<open>A\<close>,
  then once more under \<open>A\<close>, or under \<open>B\<close>.\<close>

definition accept_all :: verifier where
  "accept_all q = Inr (True, \<lparr>vr_error = None, vr_measurements = Some [(''mrtd'', q)]\<rparr>)"

definition finance_reg :: registration where
  "finance_reg = \<lparr>reg_agent_id = ''finance-1'', reg_agent_type = ''finance'',
     reg_capabilities = [''roi_calculation''], reg_endpoint = ''http://finance-1:8081'',
     reg_attestation_endpoint = ''http://finance-1:29344'',
     reg_quote = Some ''quote'', reg_public_key = Some ''pem''\<rparr>"

definition registry_A :: registry where
  "registry_A = fst (register_agent accept_all 0 finance_reg ''A'' empty_registry)"

definition registry_AA :: registry where
  "registry_AA = fst (register_agent accept_all 60000000 finance_reg ''A'' registry_A)"

definition registry_AB :: registry where
  "registry_AB = fst (register_agent accept_all 60000000 finance_reg ''B'' registry_A)"

subsection \<open>Collaborations\<close>

text \<open>Client \<open>acme\<close> with a finance and a marketing agent, both agent VMs unreachable; a
  request about ROI; responses of confidence 0.6 and 0.85 (as doubles); the table after
  routing, and after the first response.\<close>

definition marketing_reg :: registration where
  "marketing_reg = \<lparr>reg_agent_id = ''marketing-1'', reg_agent_type = ''marketing'',
     reg_capabilities = [''campaign_performance''], reg_endpoint = ''http://marketing-1:8082'',
     reg_attestation_endpoint = ''http://marketing-1:29345'',
     reg_quote = Some ''quote'', reg_public_key = Some ''pem''\<rparr>"

definition registry_acme :: registry where
  "registry_acme =
     fst (register_agent accept_all 0 marketing_reg ''acme''
       (fst (register_agent accept_all 0 finance_reg ''acme'' empty_registry)))"

definition roi_request :: request_data where
  "roi_request = \<lparr>rq_query = ''Compute Q4 ROI'', rq_requesting_agent = None,
     rq_context = [(''marketing_spend'', JInt 50000)],
     rq_data_requirements = [''financial_data''], rq_priority = ''normal'',
     rq_timeout_seconds = 60\<rparr>"

definition env_down :: "string \<Rightarrow> env" where
  "env_down u = \<lparr>uuid_hex8 = u, clock = 0, rand_estimated_time = 3, rand_confidence = 9/10,
     spoke_endpoints = [''finance'' \<mapsto> ''http://localhost:8081'', ''marketing'' \<mapsto> ''http://localhost:8082''],
     http_post = (\<lambda>url d. HttpFailed ''connection refused''),
     json_length = (\<lambda>p. 0),
     synthesize_results = (\<lambda>rs. JObj [(''responses'', JInt (int (length rs)))])\<rparr>"

definition finance_agent :: agent where
  "finance_agent = \<lparr>agent_id = ''finance-1'', agent_type = ''finance'',
     capabilities = [''roi_calculation''], endpoint = ''http://finance-1:8081'',
     attestation_endpoint = ''http://finance-1:29344'', public_key = ''pem'',
     attestation_quote = ''quote'', status = ''verified'', registered_at = 0, last_seen = 0,
     client_id = ''acme'', measurements = [(''mrtd'', ''quote'')]\<rparr>"

definition marketing_agent :: agent where
  "marketing_agent = \<lparr>agent_id = ''marketing-1'', agent_type = ''marketing'',
     capabilities = [''campaign_performance''], endpoint = ''http://marketing-1:8082'',
     attestation_endpoint = ''http://marketing-1:29345'', public_key = ''pem'',
     attestation_quote = ''quote'', status = ''verified'', registered_at = 0, last_seen = 0,
     client_id = ''acme'', measurements = [(''mrtd'', ''quote'')]\<rparr>"

definition roi_entry :: "string \<Rightarrow> active_request" where
  "roi_entry u = \<lparr>ar_routing_id = ''route_'' @ u, ar_request_data = roi_request,
     ar_target_agent = finance_agent, ar_client_id = ''acme'', ar_started_at = 0,
     ar_responses = []\<rparr>"

definition roi_info :: "string \<Rightarrow> routing_info" where
  "roi_info u = \<lparr>ri_routing_id = ''route_'' @ u, ri_target_agent = ''finance-1'',
     ri_agent_type = ''finance'',
     ri_reasoning = ''Query contains financial terms requiring specialized analysis'',
     ri_estimated_time_minutes = 3, ri_data_package_size = 0, ri_routed_at = 0,
     ri_collaboration_result = CommunicationFailed ''connection refused''\<rparr>"

definition low_confidence_response :: dict where
  "low_confidence_response =
     [(''agent_id'', JStr ''finance-1''), (''agent_type'', JStr ''finance''),
      (''result'', JObj [(''confidence_score'', JFloat (5404319552844595 / 9007199254740992))])]"

definition high_confidence_response :: dict where
  "high_confidence_response =
     [(''agent_id'', JStr ''marketing-1''), (''agent_type'', JStr ''marketing''),
      (''result'', JObj [(''confidence_score'', JFloat (7656119366529843 / 9007199254740992))])]"

definition table_routed :: active_table where
  "table_routed = [''route_aaaaaaaa'' \<mapsto> roi_entry ''aaaaaaaa'']"

definition table_escalated :: active_table where
  "table_escalated =
     [''route_aaaaaaaa'' \<mapsto>
        (roi_entry ''aaaaaaaa'')\<lparr>ar_responses := [mk_response (env_down ''bbbbbbbb'') low_confidence_response]\<rparr>,
      ''route_bbbbbbbb'' \<mapsto> roi_entry ''bbbbbbbb'']"

definition s2_completion :: completion where
  "s2_completion =
     \<lparr>c_routing_id = ''route_aaaaaaaa'', c_status = ''completed'',
      c_synthesis = JObj [(''responses'', JInt 2)],
      c_responses = [mk_response (env_down ''bbbbbbbb'') low_confidence_response,
                     mk_response (env_down ''cccccccc'') high_confidence_response],
      c_completed_at = 0\<rparr>"

section \<open>Properties of the agent registry\<close>

subsection \<open>The invariant holds in every reachable registry\<close>

lemma inv_empty: "registry_inv empty_registry"
  by (simp add: registry_inv_def empty_registry_def)

lemma inv_register: "registry_inv r \<Longrightarrow> registry_inv (fst (register_agent v now reg cid r))"
  unfolding registry_inv_def register_agent_def ids_of_def
  by (auto simp: Let_def split: sum.splits option.splits prod.splits if_splits)

lemma inv_heartbeat: "registry_inv r \<Longrightarrow> registry_inv (fst (update_agent_heartbeat now aid cid r))"
  unfolding registry_inv_def update_agent_heartbeat_def get_agent_def ids_of_def
  by (auto split: option.splits if_splits)

lemma health_step_ids: "ids_of (fst (health_step t st aid)) c = ids_of (fst st) c"
  by (simp add: health_step_def ids_of_def Let_def split: option.splits)

lemma inv_health_step: "registry_inv (fst st) \<Longrightarrow> registry_inv (fst (health_step t st aid))"
  unfolding registry_inv_def health_step_def ids_of_def
  by (auto simp: Let_def split: option.splits if_splits)

lemma inv_foldl_health: "registry_inv (fst st) \<Longrightarrow> registry_inv (fst (foldl (health_step t) st ids))"
  by (induction ids arbitrary: st) (simp_all add: inv_health_step)

lemma inv_health: "registry_inv r \<Longrightarrow> registry_inv (fst (check_agent_health now cid r))"
  by (simp add: check_agent_health_def inv_foldl_health)

lemma ids_of_agents_upd [simp]: "ids_of (r\<lparr>agents := m\<rparr>) c = ids_of r c"
  by (simp add: ids_of_def)

lemma inv_remove:
  assumes "registry_inv r"
  shows "registry_inv (fst (remove_agent aid cid r))"
proof (cases "get_agent r aid cid")
  case None
  then show ?thesis using assms by (simp add: remove_agent_def)
next
  case (Some a0)
  let ?r1 = "r\<lparr>agents := (agents r)(aid := None)\<rparr>"
  have inv1: "registry_inv ?r1"
    using assms by (auto simp: registry_inv_def)
  show ?thesis
  proof (cases "client_agents r cid")
    case None
    then show ?thesis using Some inv1 by (simp add: remove_agent_def Let_def)
  next
    case (Some ids)
    show ?thesis
    proof (cases "aid \<in> set ids")
      case False
      then show ?thesis using Some \<open>get_agent r aid cid = Some a0\<close> inv1
        by (simp add: remove_agent_def Let_def)
    next
      case True
      let ?r2 = "?r1\<lparr>client_agents := (client_agents ?r1)(cid \<mapsto> remove1 aid ids)\<rparr>"
      have res: "fst (remove_agent aid cid r) = ?r2"
        using Some True \<open>get_agent r aid cid = Some a0\<close>
        by (simp add: remove_agent_def Let_def)
      have "registry_inv ?r2"
        unfolding registry_inv_def
      proof (intro allI impI)
        fix k a
        assume ka: "agents ?r2 k = Some a"
        then have kne: "k \<noteq> aid" and ka1: "agents ?r1 k = Some a"
          by (auto split: if_splits)
        from inv1 ka1 have id: "agent_id a = k" and mem: "k \<in> set (ids_of ?r1 (client_id a))"
          by (auto simp: registry_inv_def)
        have "k \<in> set (ids_of ?r2 (client_id a))"
        proof (cases "client_id a = cid")
          case True
          with mem Some have "k \<in> set ids" by (simp add: ids_of_def)
          with kne have "k \<in> set (remove1 aid ids)" by simp
          with True show ?thesis by (simp add: ids_of_def)
        next
          case False
          with mem show ?thesis by (simp add: ids_of_def)
        qed
        with id show "agent_id a = k \<and> k \<in> set (ids_of ?r2 (client_id a))" by simp
      qed
      with res show ?thesis by simp
    qed
  qed
qed

lemma reachable_inv: "reachable r \<Longrightarrow> registry_inv r"
  by (induction rule: reachable.induct)
     (simp_all add: inv_empty inv_register inv_heartbeat inv_health inv_remove)

subsection \<open>Lookups scoped by client\<close>

lemma get_all_agents_ids:
  assumes "registry_inv r" "x \<in> set (get_all_agents r c)"
  shows "agent_id x \<in> set (ids_of r c)"
  using assms unfolding get_all_agents_def registry_inv_def
  by (auto split: option.splits)

lemma by_capability_subset: "set (get_agents_by_capability r cap c) \<subseteq> set (get_all_agents r c)"
  unfolding get_agents_by_capability_def get_all_agents_def
  by (auto split: option.splits if_splits)

lemma directory_ids: "e \<in> set (get_agent_directory now r c) \<Longrightarrow> de_agent_id e \<in> set (ids_of r c)"
  unfolding get_agent_directory_def
  by (auto split: option.splits if_splits)

subsection \<open>What a client's list can name\<close>

lemma apply_event_reachable: "reachable r \<Longrightarrow> reachable (apply_event e r)"
  by (cases e) (simp_all add: reachable.intros)

lemma run_events_reachable: "reachable r \<Longrightarrow> reachable (run_events es r)"
  by (induction es arbitrary: r) (simp_all add: apply_event_reachable)

lemma ids_after_register:
  "a \<in> set (ids_of (fst (register_agent v now reg cid r)) c)
     \<Longrightarrow> a \<in> set (ids_of r c) \<or> (reg_agent_id reg = a \<and> cid = c)"
  unfolding register_agent_def ids_of_def
  by (auto simp: Let_def split: sum.splits option.splits prod.splits if_splits)

lemma ids_after_heartbeat:
  "ids_of (fst (update_agent_heartbeat now aid cid r)) c = ids_of r c"
  by (simp add: update_agent_heartbeat_def split: option.splits)

lemma foldl_health_ids: "ids_of (fst (foldl (health_step t) st ids)) c = ids_of (fst st) c"
  by (induction ids arbitrary: st) (simp_all add: health_step_ids)

lemma ids_after_health: "ids_of (fst (check_agent_health now cid r)) c = ids_of r c"
  by (simp add: check_agent_health_def foldl_health_ids)

lemma ids_after_remove:
  "a \<in> set (ids_of (fst (remove_agent aid cid r)) c) \<Longrightarrow> a \<in> set (ids_of r c)"
  unfolding remove_agent_def ids_of_def
  by (auto simp: Let_def split: option.splits if_splits dest: set_remove1_subset[THEN subsetD])

lemma ids_after_event:
  "a \<in> set (ids_of (apply_event e r) c) \<Longrightarrow> a \<in> set (ids_of r c) \<or> registers a c e"
  by (cases e)
     (auto simp: ids_after_heartbeat ids_after_health dest: ids_after_register ids_after_remove)

lemma ids_after_run:
  "a \<in> set (ids_of (run_events es r) c) \<Longrightarrow> a \<in> set (ids_of r c) \<or> (\<exists>e \<in> set es. registers a c e)"
proof (induction es arbitrary: r)
  case Nil
  then show ?case by simp
next
  case (Cons e es)
  from Cons.IH[of "apply_event e r"] Cons.prems
  have "a \<in> set (ids_of (apply_event e r) c) \<or> (\<exists>e \<in> set es. registers a c e)" by simp
  then show ?case using ids_after_event[of a e r c] by auto
qed

lemma never_registered_not_listed:
  assumes "\<forall>e \<in> set es. \<not> registers a c e"
  shows "a \<notin> set (ids_of (run_events es empty_registry) c)"
  using ids_after_run[of a es empty_registry c] assms
  by (auto simp: ids_of_def empty_registry_def)

lemma registry_A_eval:
  "agents registry_A = [''finance-1'' \<mapsto> \<lparr>agent_id = ''finance-1'', agent_type = ''finance'',
       capabilities = [''roi_calculation''], endpoint = ''http://finance-1:8081'',
       attestation_endpoint = ''http://finance-1:29344'', public_key = ''pem'',
       attestation_quote = ''quote'', status = ''verified'', registered_at = 0, last_seen = 0,
       client_id = ''A'', measurements = [(''mrtd'', ''quote'')]\<rparr>]"
  "client_agents registry_A = [''A'' \<mapsto> [''finance-1'']]"
  by (simp_all add: registry_A_def register_agent_def accept_all_def finance_reg_def
      empty_registry_def ids_of_def Let_def)

subsection \<open>Client isolation\<close>

text \<open>
  Claim C8 (client isolation). Take the registry after any history of calls, distinct
  clients \<open>c1\<close> and \<open>c2\<close>, and an agent \<open>a\<close> that is registered under \<open>c1\<close> (the
  scoped lookup finds it) and was not registered under \<open>c2\<close> (no call of the history
  registers \<open>a\<close> under \<open>c2\<close>). Then \<open>get_agent a c2\<close> is not-found, and no record or
  directory line enumerated for \<open>c2\<close> carries the id \<open>a\<close>.
\<close>

theorem client_isolation:
  assumes "r = run_events es empty_registry" and "c1 \<noteq> c2"
    and "get_agent r a c1 = Some x" and "\<forall>e \<in> set es. \<not> registers a c2 e"
  shows "get_agent r a c2 = None
       \<and> (\<forall>y \<in> set (get_all_agents r c2). agent_id y \<noteq> a)
       \<and> (\<forall>y \<in> set (get_agents_by_capability r cap c2). agent_id y \<noteq> a)
       \<and> (\<forall>e \<in> set (get_agent_directory now r c2). de_agent_id e \<noteq> a)"
proof -
  have "reachable r" unfolding assms(1) by (rule run_events_reachable[OF reach_empty])
  then have inv: "registry_inv r" by (rule reachable_inv)
  have nl: "a \<notin> set (ids_of r c2)"
    unfolding assms(1) by (rule never_registered_not_listed[OF assms(4)])
  have g: "get_agent r a c2 = None"
    using assms(2,3) by (auto simp: get_agent_def split: option.splits if_splits)
  have e1: "\<forall>y \<in> set (get_all_agents r c2). agent_id y \<noteq> a"
    using get_all_agents_ids[OF inv] nl by blast
  have e2: "\<forall>y \<in> set (get_agents_by_capability r cap c2). agent_id y \<noteq> a"
    using e1 by_capability_subset by blast
  have e3: "\<forall>e \<in> set (get_agent_directory now r c2). de_agent_id e \<noteq> a"
    using directory_ids nl by blast
  from g e1 e2 e3 show ?thesis by simp
qed

text \<open>Witness for C8: \<open>finance-1\<close> registered under client \<open>A\<close>, looked up under \<open>B\<close>.\<close>

theorem client_isolation_witness:
  "registry_A = run_events [Register accept_all 0 finance_reg ''A''] empty_registry
   \<and> ''A'' \<noteq> ''B''
   \<and> get_agent registry_A ''finance-1'' ''A'' \<noteq> None
   \<and> \<not> registers ''finance-1'' ''B'' (Register accept_all 0 finance_reg ''A'')
   \<and> get_agent registry_A ''finance-1'' ''B'' = None
   \<and> get_all_agents registry_A ''B'' = []"
proof -
  have r: "registry_A = run_events [Register accept_all 0 finance_reg ''A''] empty_registry"
    by (simp add: registry_A_def)
  have n: "''A'' \<noteq> ''B''" by simp
  have g: "get_agent registry_A ''finance-1'' ''A'' = Some (the (agents registry_A ''finance-1''))"
    by (simp add: get_agent_def registry_A_eval)
  have i: "\<forall>e \<in> set [Register accept_all 0 finance_reg ''A'']. \<not> registers ''finance-1'' ''B'' e"
    by simp
  have e: "get_all_agents registry_A ''B'' = []"
    by (simp add: get_all_agents_def ids_of_def registry_A_eval)
  from client_isolation[OF r n g i] r g i e show ?thesis by simp
qed

subsection \<open>Re-registration\<close>

text \<open>
  Claim C9 (an agent id appears at most once in its client's enumeration). The store
  \<open>agents\<close> is upserted, but \<open>register_agent\<close> appends the id to the client's list
  on every successful call. After registering \<open>finance-1\<close> twice under client \<open>A\<close>
  both \<open>get_all_agents\<close> and the directory list the agent twice.
\<close>

theorem reregistration_duplicates_enumeration:
  "map agent_id (get_all_agents registry_AA ''A'') = [''finance-1'', ''finance-1'']
   \<and> map de_agent_id (get_agent_directory 60000000 registry_AA ''A'') = [''finance-1'', ''finance-1'']
   \<and> \<not> distinct (map agent_id (get_all_agents registry_AA ''A''))"
  by (simp add: registry_AA_def register_agent_def accept_all_def finance_reg_def
      ids_of_def Let_def registry_A_eval get_all_agents_def get_agent_directory_def)

lemma register_agent_Registered:
  assumes "register_agent v now reg cid r = (r', Registered aid ms)"
  shows "r' = \<lparr>agents = (agents r)(reg_agent_id reg \<mapsto>
                 \<lparr>agent_id = reg_agent_id reg, agent_type = reg_agent_type reg,
                  capabilities = reg_capabilities reg, endpoint = reg_endpoint reg,
                  attestation_endpoint = reg_attestation_endpoint reg,
                  public_key = the (reg_public_key reg),
                  attestation_quote = the (reg_quote reg), status = ''verified'',
                  registered_at = now, last_seen = now, client_id = cid,
                  measurements = ms\<rparr>),
               client_agents = (client_agents r)(cid \<mapsto> ids_of r cid @ [reg_agent_id reg])\<rparr>
         \<and> aid = reg_agent_id reg"
  using assms unfolding register_agent_def
  by (auto simp: Let_def split: if_splits sum.splits prod.splits)

text \<open>
  Claim C10 (storage is keyed by agent id alone). If agent \<open>A\<close> is registered under
  \<open>c1\<close> and a registration of the same id under another client \<open>c2\<close> succeeds, the
  one stored record now belongs to \<open>c2\<close>: \<open>get_agent A c1\<close> is not-found, the list of
  \<open>c1\<close> still names \<open>A\<close>, and \<open>get_all_agents c1\<close> and
  \<open>get_agents_by_capability\<close> under \<open>c1\<close> (for each capability of the new
  registration) return the record owned by \<open>c2\<close>.
\<close>

theorem cross_client_reregistration:
  assumes "reachable r" and "get_agent r (reg_agent_id reg) c1 = Some old" and "c1 \<noteq> c2"
    and "register_agent v now reg c2 r = (r', Registered aid ms)"
  shows "\<exists>new. agents r' (reg_agent_id reg) = Some new \<and> client_id new = c2
           \<and> get_agent r' (reg_agent_id reg) c1 = None
           \<and> reg_agent_id reg \<in> set (ids_of r' c1)
           \<and> new \<in> set (get_all_agents r' c1)
           \<and> (\<forall>cap \<in> set (reg_capabilities reg). new \<in> set (get_agents_by_capability r' cap c1))"
proof -
  let ?A = "reg_agent_id reg"
  have inv: "registry_inv r" using assms(1) by (rule reachable_inv)
  from assms(2) have old: "agents r ?A = Some old" "client_id old = c1"
    by (auto simp: get_agent_def split: option.splits if_splits)
  with inv have mem: "?A \<in> set (ids_of r c1)" by (auto simp: registry_inv_def)
  note r' = register_agent_Registered[OF assms(4)]
  define new where "new = the (agents r' ?A)"
  have a: "agents r' ?A = Some new" and c: "client_id new = c2"
    and caps: "capabilities new = reg_capabilities reg" and st: "status new = ''verified''"
    using r' by (simp_all add: new_def)
  have g: "get_agent r' ?A c1 = None"
    using a c assms(3) by (simp add: get_agent_def)
  have ids: "ids_of r' c1 = ids_of r c1"
    using r' assms(3) by (simp add: ids_of_def)
  with mem have m': "?A \<in> set (ids_of r' c1)" by simp
  have all: "new \<in> set (get_all_agents r' c1)"
    unfolding get_all_agents_def using m' a by force
  have cap: "\<forall>cap \<in> set (reg_capabilities reg). new \<in> set (get_agents_by_capability r' cap c1)"
    unfolding get_agents_by_capability_def using m' a caps st by force
  from a c g m' all cap show ?thesis by blast
qed

text \<open>Witness for C10: \<open>finance-1\<close> registered under \<open>A\<close>, then under \<open>B\<close>.\<close>

theorem cross_client_reregistration_witness:
  "reachable registry_A \<and> get_agent registry_A ''finance-1'' ''A'' \<noteq> None
   \<and> ''A'' \<noteq> ''B''
   \<and> snd (register_agent accept_all 60000000 finance_reg ''B'' registry_A)
       = Registered ''finance-1'' [(''mrtd'', ''quote'')]
   \<and> get_agent registry_AB ''finance-1'' ''A'' = None
   \<and> map client_id (get_all_agents registry_AB ''A'') = [''B'']
   \<and> map client_id (get_agents_by_capability registry_AB ''roi_calculation'' ''A'') = [''B'']"
proof -
  have r: "reachable registry_A"
    unfolding registry_A_def by (rule reach_register[OF reach_empty])
  have g: "get_agent registry_A (reg_agent_id finance_reg) ''A'' = Some (the (agents registry_A ''finance-1''))"
    by (simp add: get_agent_def registry_A_eval finance_reg_def)
  have g': "get_agent registry_A ''finance-1'' ''A'' \<noteq> None"
    by (simp add: get_agent_def registry_A_eval)
  have n: "''A'' \<noteq> ''B''" by simp
  have s: "register_agent accept_all 60000000 finance_reg ''B'' registry_A
            = (registry_AB, Registered ''finance-1'' [(''mrtd'', ''quote'')])"
    by (simp add: registry_AB_def register_agent_def accept_all_def finance_reg_def Let_def)
  have e: "agents registry_AB = [''finance-1'' \<mapsto> \<lparr>agent_id = ''finance-1'', agent_type = ''finance'',
       capabilities = [''roi_calculation''], endpoint = ''http://finance-1:8081'',
       attestation_endpoint = ''http://finance-1:29344'', public_key = ''pem'',
       attestation_quote = ''quote'', status = ''verified'', registered_at = 60000000,
       last_seen = 60000000, client_id = ''B'', measurements = [(''mrtd'', ''quote'')]\<rparr>]"
     "client_agents registry_AB = [''A'' \<mapsto> [''finance-1''], ''B'' \<mapsto> [''finance-1'']]"
    by (simp_all add: registry_AB_def register_agent_def accept_all_def finance_reg_def
        ids_of_def Let_def registry_A_eval)
  have v: "get_agent registry_AB ''finance-1'' ''A'' = None
     \<and> map client_id (get_all_agents registry_AB ''A'') = [''B'']
     \<and> map client_id (get_agents_by_capability registry_AB ''roi_calculation'' ''A'') = [''B'']"
    by (simp add: get_agent_def get_all_agents_def get_agents_by_capability_def ids_of_def e)
  from cross_client_reregistration[OF r g n s] r g' s v show ?thesis by simp
qed

section \<open>Properties of the orchestration engine\<close>

subsection \<open>What one call does to the table\<close>

lemma route_request_cases:
  assumes "route_request e reg rq cid tbl = (tbl', res)"
  shows "(res = NoAgents \<and> tbl' = tbl) \<or>
         (\<exists>info ar. res = Routed info
            \<and> ri_routing_id info = ''route_'' @ uuid_hex8 e
            \<and> tbl' = tbl(''route_'' @ uuid_hex8 e \<mapsto> ar)
            \<and> ar_routing_id ar = ''route_'' @ uuid_hex8 e
            \<and> ar_responses ar = [] \<and> ar_request_data ar = rq \<and> ar_client_id ar = cid
            \<and> agent_id (ar_target_agent ar) = ri_target_agent info
            \<and> ar_target_agent ar \<in> set (get_all_agents reg cid)
            \<and> Some (ri_target_agent info) \<noteq> rq_requesting_agent rq
            \<and> status (ar_target_agent ar) = ''verified'')"
proof -
  let ?av = "filter (\<lambda>a. Some (agent_id a) \<noteq> rq_requesting_agent rq \<and> status a = ''verified'')
                  (get_all_agents reg cid)"
  show ?thesis
  proof (cases ?av)
    case Nil
    with assms show ?thesis by (simp add: route_request_def Let_def)
  next
    case (Cons first rest)
    let ?d = "route_to_agent (rand_estimated_time e) (rand_confidence e) (rq_query rq) (first # rest)"
    obtain target why where tw:
      "(case find (\<lambda>a. agent_type a = best_agent ?d) (first # rest) of
           Some a \<Rightarrow> (a, reasoning ?d)
         | None \<Rightarrow> (first, ''Primary agent not found, using fallback'')) = (target, why)"
      by (cases "(case find (\<lambda>a. agent_type a = best_agent ?d) (first # rest) of
           Some a \<Rightarrow> (a, reasoning ?d)
         | None \<Rightarrow> (first, ''Primary agent not found, using fallback''))") auto
    have "target \<in> set (first # rest)"
    proof (cases "find (\<lambda>a. agent_type a = best_agent ?d) (first # rest)")
      case None
      with tw show ?thesis by simp
    next
      case (Some a)
      then have "a \<in> set (first # rest)"
        unfolding find_Some_iff by (metis nth_mem)
      with tw Some show ?thesis by simp
    qed
    then have tin: "target \<in> set ?av" using Cons by simp
    have eq: "route_request e reg rq cid tbl =
       (tbl(''route_'' @ uuid_hex8 e \<mapsto>
                         \<lparr>ar_routing_id = ''route_'' @ uuid_hex8 e,
                          ar_request_data = rq,
                          ar_target_agent = target,
                          ar_client_id = cid,
                          ar_started_at = clock e,
                          ar_responses = []\<rparr>),
        Routed \<lparr>ri_routing_id = ''route_'' @ uuid_hex8 e,
                   ri_target_agent = agent_id target,
                   ri_agent_type = agent_type target,
                   ri_reasoning = why,
                   ri_estimated_time_minutes = estimated_time ?d,
                   ri_data_package_size = json_length e (prepare_data_package (clock e) rq target cid),
                   ri_routed_at = clock e,
                   ri_collaboration_result =
                     send_to_agent (spoke_endpoints e) (http_post e) (agent_type target)
                      \<lparr>d_routing_id = ''route_'' @ uuid_hex8 e, d_query = rq_query rq,
                       d_context = rq_context rq,
                       d_data_package = prepare_data_package (clock e) rq target cid,
                       d_requesting_agent = rq_requesting_agent rq,
                       d_priority = priority ?d\<rparr>\<rparr>)"
      unfolding route_request_def Let_def
      by (simp only: Cons list.case tw prod.case)
    from eq assms tin show ?thesis by auto
  qed
qed

lemma process_unknown:
  "tbl rid = None \<Longrightarrow>
   process_collaboration_response e reg rid rd tbl = (tbl, ErrorReply ''Unknown routing ID'')"
  by (simp add: process_collaboration_response_def)

lemma process_completed:
  assumes "process_collaboration_response e reg rid rd tbl = (tbl', Completed c)"
  shows "\<exists>ar. tbl rid = Some ar \<and> tbl' = tbl(rid := None)
           \<and> c_routing_id c = rid
           \<and> c_responses c = ar_responses ar @ [mk_response e rd]
           \<and> c_synthesis c = synthesize_results e (c_responses c)"
  using assms unfolding process_collaboration_response_def mk_response_def Let_def
  by (auto split: option.splits sum.splits bool.splits prod.splits)

lemma needs_True:
  "needs_additional_collaboration ar rd = Inr True \<Longrightarrow> length (ar_responses ar) < 2"
  unfolding needs_additional_collaboration_def Let_def
  by (auto split: json.splits if_splits)

lemma process_escalated:
  assumes "process_collaboration_response e reg rid rd tbl = (tbl', Escalated x)"
  shows "\<exists>ar. tbl rid = Some ar \<and> ar_responses ar = []
           \<and> route_request e reg (ar_request_data ar) (ar_client_id ar)
                 (tbl(rid \<mapsto> ar\<lparr>ar_responses := [mk_response e rd]\<rparr>)) = (tbl', x)"
proof -
  from assms obtain ar where ar: "tbl rid = Some ar"
    by (auto simp: process_collaboration_response_def split: option.splits)
  let ?ar = "ar\<lparr>ar_responses := ar_responses ar @ [mk_response e rd]\<rparr>"
  from assms ar have n: "needs_additional_collaboration ?ar rd = Inr True"
    and r: "route_request e reg (ar_request_data ?ar) (ar_client_id ?ar) (tbl(rid \<mapsto> ?ar)) = (tbl', x)"
    unfolding process_collaboration_response_def mk_response_def Let_def
    by (auto split: option.splits sum.splits bool.splits prod.splits)
  from needs_True[OF n] have "ar_responses ar = []" by simp
  with ar r show ?thesis by auto
qed

lemma escalated_entry:
  assumes "process_collaboration_response e reg rid rd tbl = (tbl', Escalated x)"
  shows "\<exists>ar'. tbl' rid = Some ar' \<and> length (ar_responses ar') \<le> 1
            \<and> (''route_'' @ uuid_hex8 e \<noteq> rid \<longrightarrow> length (ar_responses ar') = 1)"
proof -
  from process_escalated[OF assms] obtain ar where
    ar: "tbl rid = Some ar" "ar_responses ar = []"
    and r: "route_request e reg (ar_request_data ar) (ar_client_id ar)
                 (tbl(rid \<mapsto> ar\<lparr>ar_responses := [mk_response e rd]\<rparr>)) = (tbl', x)"
    by blast
  from route_request_cases[OF r] show ?thesis
    by (auto simp: fun_upd_def)
qed

lemma run_posts_length: "run_posts rid ps tbl = (tbl', rs) \<Longrightarrow> length rs = length ps"
  by (induction ps arbitrary: tbl tbl' rs) (auto split: prod.splits)

lemma run_completed:
  assumes "tbl rid = Some ar" and "length (ar_responses ar) \<le> 1"
    and "run_posts rid ps tbl = (tbl', rs @ [Completed c])"
    and "\<forall>r \<in> set rs. is_escalated r"
  shows "tbl' rid = None \<and> c_routing_id c = rid
       \<and> 1 \<le> length (c_responses c) \<and> length (c_responses c) \<le> 2
       \<and> c_synthesis c = synthesize_results (fst (last ps)) (c_responses c)
       \<and> ((\<forall>p \<in> set ps. fresh_id rid p) \<longrightarrow>
              length (c_responses c) = length (ar_responses ar) + length ps)"
  using assms
proof (induction ps arbitrary: tbl ar rs)
  case Nil
  then show ?case by simp
next
  case (Cons p ps)
  obtain e reg rd where p: "p = (e, reg, rd)" by (cases p) auto
  obtain tbl1 r1 where s1: "process_collaboration_response e reg rid rd tbl = (tbl1, r1)"
    by (cases "process_collaboration_response e reg rid rd tbl") auto
  obtain tbl2 rs2 where s2: "run_posts rid ps tbl1 = (tbl2, rs2)"
    by (cases "run_posts rid ps tbl1") auto
  from Cons.prems(3) p s1 s2 have eq: "tbl2 = tbl'" "r1 # rs2 = rs @ [Completed c]"
    by simp_all
  show ?case
  proof (cases rs)
    case Nil
    with eq have r1: "r1 = Completed c" and "rs2 = []" by simp_all
    with run_posts_length[OF s2] have ps: "ps = []" by simp
    from process_completed[OF s1[unfolded r1]] Cons.prems(1)
    have "tbl1 = tbl(rid := None)" "c_routing_id c = rid"
      "c_responses c = ar_responses ar @ [mk_response e rd]"
      "c_synthesis c = synthesize_results e (c_responses c)"
      by auto
    moreover from s2 ps eq have "tbl' = tbl1" by simp
    ultimately show ?thesis using Cons.prems(2) p ps by simp
  next
    case (Cons r rs')
    with eq have r1: "r1 = r" and rs2: "rs2 = rs' @ [Completed c]" by simp_all
    from Cons Cons.prems(4) have "is_escalated r" and rest: "\<forall>r \<in> set rs'. is_escalated r"
      by simp_all
    then obtain x where x: "r = Escalated x" by (cases r) auto
    from process_escalated[OF s1[unfolded r1 x]] Cons.prems(1)
    have ar0: "ar_responses ar = []" by auto
    from escalated_entry[OF s1[unfolded r1 x]] obtain ar1 where
      ar1: "tbl1 rid = Some ar1" "length (ar_responses ar1) \<le> 1"
        "''route_'' @ uuid_hex8 e \<noteq> rid \<longrightarrow> length (ar_responses ar1) = 1"
      by blast
    from run_posts_length[OF s2] rs2 have "ps \<noteq> []" by auto
    then have lst: "last (p # ps) = last ps" by simp
    from Cons.IH[OF ar1(1) ar1(2) s2[unfolded rs2 eq(1)] rest]
    show ?thesis using ar0 ar1(3) p lst by (auto simp: fresh_id_def)
  qed
qed

subsection \<open>The test states, evaluated\<close>

lemma registry_acme_agents:
  "get_all_agents registry_acme ''acme'' = [finance_agent, marketing_agent]"
  by (simp add: registry_acme_def register_agent_def accept_all_def finance_reg_def
      marketing_reg_def empty_registry_def ids_of_def Let_def get_all_agents_def
      finance_agent_def marketing_agent_def)

lemma lower_roi: "lower ''Compute Q4 ROI'' = ''compute q4 roi''"
  by code_simp

lemma roi_is_financial:
  "any_word_in [''roi'', ''budget'', ''financial'', ''revenue'', ''cost''] (lower ''Compute Q4 ROI'')"
  by (simp add: any_word_in_def lower_roi)

lemma fixture_agent_fields:
  "agent_id finance_agent = ''finance-1''" "agent_type finance_agent = ''finance''"
  "status finance_agent = ''verified''"
  "agent_id marketing_agent = ''marketing-1''" "agent_type marketing_agent = ''marketing''"
  "status marketing_agent = ''verified''"
  by (simp_all add: finance_agent_def marketing_agent_def)

lemma roi_decision:
  "route_to_agent 3 (9/10) ''Compute Q4 ROI'' [finance_agent, marketing_agent] =
     \<lparr>best_agent = ''finance'',
      reasoning = ''Query contains financial terms requiring specialized analysis'',
      priority = ''high'', estimated_time = 3, confidence = 9/10\<rparr>"
  unfolding route_to_agent_def mock_route_to_agent_def Let_def
  by (simp add: roi_is_financial fixture_agent_fields)

lemma route_roi:
  "route_request (env_down u) registry_acme roi_request ''acme'' tbl =
     (tbl(''route_'' @ u \<mapsto> roi_entry u), Routed (roi_info u))"
  unfolding route_request_def Let_def
  by (simp add: registry_acme_agents roi_request_def env_down_def roi_decision
      fixture_agent_fields roi_entry_def roi_info_def send_to_agent_def)

subsection \<open>Dispatch failure\<close>

text \<open>
  Claim C3 (a failed dispatch leaves the table of active collaborations unchanged).
  Not so: \<open>route_request\<close> stores the entry before it calls \<open>send_to_agent\<close>, and
  \<open>send_to_agent\<close> reports a failure as a returned dictionary. With both agent VMs
  unreachable, the call on an empty table returns a routing result whose dispatch
  failed, and the table then holds the entry \<open>route_aaaaaaaa\<close>.
\<close>

theorem dispatch_failure_ghost_entry_counterexample:
  "dispatch_failed (snd (route_request (env_down ''aaaaaaaa'') registry_acme roi_request ''acme'' Map.empty))
   \<and> fst (route_request (env_down ''aaaaaaaa'') registry_acme roi_request ''acme'' Map.empty)
        ''route_aaaaaaaa'' = Some (roi_entry ''aaaaaaaa'')
   \<and> fst (route_request (env_down ''aaaaaaaa'') registry_acme roi_request ''acme'' Map.empty)
        \<noteq> Map.empty"
proof -
  have "(Map.empty(''route_aaaaaaaa'' \<mapsto> roi_entry ''aaaaaaaa'')) ''route_aaaaaaaa'' \<noteq> Map.empty ''route_aaaaaaaa''"
    by simp
  then have "Map.empty(''route_aaaaaaaa'' \<mapsto> roi_entry ''aaaaaaaa'') \<noteq> (Map.empty :: active_table)"
    by metis
  then show ?thesis by (simp add: route_roi roi_info_def)
qed

text \<open>
  Claim C3, amended. Whenever the dispatch of \<open>route_request\<close> fails, the call still
  returns a routing result, and the table after the call is the table before it with the
  entry of the new routing id added (request, client, chosen agent, no response yet).
\<close>

theorem dispatch_failure_keeps_entry:
  assumes "route_request e reg rq cid tbl = (tbl', res)" and "dispatch_failed res"
  shows "\<exists>info ar. res = Routed info
           \<and> ri_routing_id info = ''route_'' @ uuid_hex8 e
           \<and> tbl' = tbl(ri_routing_id info \<mapsto> ar)
           \<and> ar_routing_id ar = ri_routing_id info
           \<and> ar_request_data ar = rq \<and> ar_client_id ar = cid \<and> ar_responses ar = []
           \<and> agent_id (ar_target_agent ar) = ri_target_agent info"
proof -
  from assms(2) have "res \<noteq> NoAgents" by auto
  with route_request_cases[OF assms(1)] show ?thesis by auto
qed

text \<open>Witness for C3: the same call.\<close>

theorem dispatch_failure_keeps_entry_witness:
  "dispatch_failed (Routed (roi_info ''aaaaaaaa''))
   \<and> route_request (env_down ''aaaaaaaa'') registry_acme roi_request ''acme'' Map.empty
        = ([''route_aaaaaaaa'' \<mapsto> roi_entry ''aaaaaaaa''], Routed (roi_info ''aaaaaaaa''))
   \<and> (\<exists>ar. [''route_aaaaaaaa'' \<mapsto> roi_entry ''aaaaaaaa''] = Map.empty(''route_aaaaaaaa'' \<mapsto> ar)
             \<and> ar_responses ar = [])"
proof -
  have r: "route_request (env_down ''aaaaaaaa'') registry_acme roi_request ''acme'' Map.empty
        = ([''route_aaaaaaaa'' \<mapsto> roi_entry ''aaaaaaaa''], Routed (roi_info ''aaaaaaaa''))"
    by (simp add: route_roi)
  have f: "dispatch_failed (Routed (roi_info ''aaaaaaaa''))"
    by (simp add: roi_info_def)
  from dispatch_failure_keeps_entry[OF r f] r f show ?thesis
    by (auto simp: env_down_def)
qed

subsection \<open>Completed collaborations\<close>

text \<open>
  Claim C4. Take a routing id issued by \<open>route_request\<close> and the responses posted to it
  since, the last of which completed the collaboration while every earlier one was
  answered by an escalation (none failed). Then the entry of the routing id is gone,
  the synthesis is computed from the returned responses, which are at least one and at
  most two, one more than the escalations when the ids drawn meanwhile are fresh
  (so exactly two after one escalation), and every further post to the routing id is
  answered with the unknown-routing-id error and changes nothing.
\<close>

theorem completed_collaboration:
  assumes "route_request e0 reg0 rq cid tbl0 = (tbl, Routed info)"
    and "run_posts (ri_routing_id info) ps tbl = (tbl', rs @ [Completed c])"
    and "\<forall>r \<in> set rs. is_escalated r"
  shows "tbl' (ri_routing_id info) = None
       \<and> c_routing_id c = ri_routing_id info
       \<and> 1 \<le> length (c_responses c) \<and> length (c_responses c) \<le> 2
       \<and> c_synthesis c = synthesize_results (fst (last ps)) (c_responses c)
       \<and> ((\<forall>p \<in> set ps. fresh_id (ri_routing_id info) p) \<longrightarrow>
              length (c_responses c) = Suc (length rs))
       \<and> (\<forall>e reg rd. process_collaboration_response e reg (ri_routing_id info) rd tbl'
              = (tbl', ErrorReply ''Unknown routing ID''))"
proof -
  from route_request_cases[OF assms(1)] obtain ar where
    ar: "tbl (ri_routing_id info) = Some ar" "ar_responses ar = []"
    by auto
  have len: "length (ar_responses ar) \<le> 1" using ar(2) by simp
  from run_posts_length[OF assms(2)] have n: "length ps = Suc (length rs)" by simp
  from run_completed[OF ar(1) len assms(2) assms(3)] ar(2) n
  show ?thesis by (simp add: process_unknown)
qed

lemma env_down_fields:
  "uuid_hex8 (env_down u) = u" "clock (env_down u) = 0"
  "synthesize_results (env_down u) rs = JObj [(''responses'', JInt (int (length rs)))]"
  by (simp_all add: env_down_def)

lemma roi_entry_fields:
  "ar_request_data (roi_entry u) = roi_request" "ar_client_id (roi_entry u) = ''acme''"
  "ar_responses (roi_entry u) = []"
  by (simp_all add: roi_entry_def)

lemma needs_low:
  "needs_additional_collaboration
     ((roi_entry u)\<lparr>ar_responses := [x]\<rparr>) low_confidence_response = Inr True"
  by (simp add: needs_additional_collaboration_def low_confidence_response_def
      dict_get_default_def float_0_7_def)

lemma needs_high:
  "needs_additional_collaboration
     ((roi_entry u)\<lparr>ar_responses := [x, y]\<rparr>) high_confidence_response = Inr False"
  by (simp add: needs_additional_collaboration_def high_confidence_response_def
      dict_get_default_def)

lemma next_after_finance:
  "determine_next_agent registry_acme
      ((roi_entry u)\<lparr>ar_responses := [mk_response e low_confidence_response]\<rparr>)
     = Inr (Some marketing_agent)"
  by (simp add: determine_next_agent_def registry_acme_agents roi_entry_fields
      fixture_agent_fields mk_response_def low_confidence_response_def dict_get_def)

lemma process_low:
  "process_collaboration_response (env_down ''bbbbbbbb'') registry_acme ''route_aaaaaaaa''
     low_confidence_response table_routed
   = (table_escalated, Escalated (Routed (roi_info ''bbbbbbbb'')))"
  unfolding process_collaboration_response_def Let_def mk_response_def[symmetric]
  by (simp add: table_routed_def table_escalated_def roi_entry_fields needs_low
      next_after_finance route_roi)

lemma process_high:
  "process_collaboration_response (env_down ''cccccccc'') registry_acme ''route_aaaaaaaa''
     high_confidence_response table_escalated
   = ([''route_bbbbbbbb'' \<mapsto> roi_entry ''bbbbbbbb''], Completed s2_completion)"
proof -
  have ne: "''route_bbbbbbbb'' \<noteq> ''route_aaaaaaaa''" by simp
  have t: "table_escalated(''route_aaaaaaaa'' := None) = [''route_bbbbbbbb'' \<mapsto> roi_entry ''bbbbbbbb'']"
    unfolding table_escalated_def by (rule ext) simp
  have l: "table_escalated ''route_aaaaaaaa'' =
      Some ((roi_entry ''aaaaaaaa'')\<lparr>ar_responses := [mk_response (env_down ''bbbbbbbb'') low_confidence_response]\<rparr>)"
    by (simp add: table_escalated_def)
  show ?thesis
    unfolding process_collaboration_response_def Let_def mk_response_def[symmetric]
    by (simp add: l t needs_high s2_completion_def env_down_fields)
qed

text \<open>Witness for C4, scenario S2: a first response of confidence 0.6, a second of 0.85,
  a third post.\<close>

theorem completed_collaboration_witness:
  "route_request (env_down ''aaaaaaaa'') registry_acme roi_request ''acme'' Map.empty
      = (table_routed, Routed (roi_info ''aaaaaaaa''))
   \<and> run_posts ''route_aaaaaaaa''
        [(env_down ''bbbbbbbb'', registry_acme, low_confidence_response),
         (env_down ''cccccccc'', registry_acme, high_confidence_response)] table_routed
      = ([''route_bbbbbbbb'' \<mapsto> roi_entry ''bbbbbbbb''],
         [Escalated (Routed (roi_info ''bbbbbbbb'')), Completed s2_completion])
   \<and> length (c_responses s2_completion) = 2
   \<and> process_collaboration_response (env_down ''dddddddd'') registry_acme ''route_aaaaaaaa''
        high_confidence_response [''route_bbbbbbbb'' \<mapsto> roi_entry ''bbbbbbbb'']
      = ([''route_bbbbbbbb'' \<mapsto> roi_entry ''bbbbbbbb''], ErrorReply ''Unknown routing ID'')"
proof -
  let ?ps = "[(env_down ''bbbbbbbb'', registry_acme, low_confidence_response),
              (env_down ''cccccccc'', registry_acme, high_confidence_response)]"
  let ?t = "[''route_bbbbbbbb'' \<mapsto> roi_entry ''bbbbbbbb'']"
  have r: "route_request (env_down ''aaaaaaaa'') registry_acme roi_request ''acme'' Map.empty
      = (table_routed, Routed (roi_info ''aaaaaaaa''))"
    by (simp add: route_roi table_routed_def)
  have i: "ri_routing_id (roi_info ''aaaaaaaa'') = ''route_aaaaaaaa''"
    by (simp add: roi_info_def)
  have run: "run_posts (ri_routing_id (roi_info ''aaaaaaaa'')) ?ps table_routed
      = (?t, [Escalated (Routed (roi_info ''bbbbbbbb''))] @ [Completed s2_completion])"
    by (simp add: i process_low process_high)
  have esc: "\<forall>r \<in> set [Escalated (Routed (roi_info ''bbbbbbbb''))]. is_escalated r"
    by simp
  have fresh: "\<forall>p \<in> set ?ps. fresh_id (ri_routing_id (roi_info ''aaaaaaaa'')) p"
    by (simp add: fresh_id_def i env_down_fields)
  from completed_collaboration[OF r run esc] fresh r run i
  show ?thesis by simp
qed

subsection \<open>Escalation\<close>

text \<open>
  Claim C5 (an escalation goes to an agent other than the original responder). With a
  finance and a marketing agent registered, \<open>finance-1\<close> answers the query with
  confidence 0.6. \<open>determine_next_agent\<close> finds \<open>marketing-1\<close>, but the engine
  then calls \<open>route_request\<close> with the original request, whose policy picks
  \<open>finance-1\<close> again: the escalation is dispatched to the agent that just responded.
\<close>

theorem escalation_reroutes_to_responder:
  "determine_next_agent registry_acme
      ((roi_entry ''aaaaaaaa'')\<lparr>ar_responses := [mk_response (env_down ''bbbbbbbb'') low_confidence_response]\<rparr>)
     = Inr (Some marketing_agent)
   \<and> escalated_target (snd (process_collaboration_response (env_down ''bbbbbbbb'') registry_acme
        ''route_aaaaaaaa'' low_confidence_response table_routed)) = Some ''finance-1''
   \<and> rs_agent_id (mk_response (env_down ''bbbbbbbb'') low_confidence_response) = JStr ''finance-1''"
proof -
  have a: "escalated_target (snd (process_collaboration_response (env_down ''bbbbbbbb'') registry_acme
        ''route_aaaaaaaa'' low_confidence_response table_routed)) = Some ''finance-1''"
    by (simp add: process_low roi_info_def)
  have b: "rs_agent_id (mk_response (env_down ''bbbbbbbb'') low_confidence_response) = JStr ''finance-1''"
    by (simp add: mk_response_def low_confidence_response_def dict_get_def)
  from a b next_after_finance show ?thesis by simp
qed

section \<open>Properties of secure messaging\<close>

subsection \<open>Auxiliary facts\<close>

lemma verify_split:
  "verify_secure_message l t e =
     (case open_envelope l e of Inl r \<Rightarrow> r | Inr m \<Rightarrow> check_fresh l t m)"
  unfolding verify_secure_message_def open_envelope_def Let_def
  by (simp split: option.splits)

lemma verify_timestamp_iff:
  "verify_timestamp l t ts 300 \<longleftrightarrow>
     (\<exists>s u. ts = JStr s \<and> fromisoformat l (normalize_timestamp s) = Some u
            \<and> u \<le> t \<and> t \<le> u + 300000000)"
  unfolding verify_timestamp_def timestamp_age_def
  by (auto split: json.splits option.splits)

lemma check_fresh_Verified:
  "check_fresh l t msg = Verified m \<longleftrightarrow>
     msg = m \<and> (\<exists>d. m = JObj d \<and> verify_timestamp l t (dict_get d ''timestamp'') 300
                    \<and> truthy (dict_get d ''nonce''))"
  unfolding check_fresh_def
  by (auto split: json.splits)

lemma message_time_window:
  "(\<exists>d. m = JObj d \<and> verify_timestamp l t (dict_get d ''timestamp'') 300)
     \<longleftrightarrow> (\<exists>d u. m = JObj d \<and> message_time l m = Some u \<and> u \<le> t \<and> t \<le> u + 300000000)"
  unfolding verify_timestamp_iff message_time_def
  by (auto split: json.splits)

lemma open_envelope_not_Verified: "open_envelope l e \<noteq> Inl (Verified m)"
  unfolding open_envelope_def Let_def
  by (simp split: option.splits)

lemma insort_key_map_snd:
  "insort_key fst (fst x, g (snd x)) (map (\<lambda>kv. (fst kv, g (snd kv))) ys)
     = map (\<lambda>kv. (fst kv, g (snd kv))) (insort_key fst x ys)"
  by (induction ys) simp_all

lemma sort_key_map_snd:
  "sort_key fst (map (\<lambda>kv. (fst kv, g (snd kv))) xs)
     = map (\<lambda>kv. (fst kv, g (snd kv))) (sort_key fst xs)"
  by (induction xs) (simp_all add: insort_key_map_snd)

lemma sort_keys_idem: "sort_keys (sort_keys v) = sort_keys v"
proof (induction v)
  case (JList xs)
  then show ?case by simp
next
  case (JObj kvs)
  let ?h = "\<lambda>kv. (fst kv, sort_keys (snd kv))"
  have "?h (?h kv) = ?h kv" if "kv \<in> set kvs" for kv
    using JObj that by (cases kv) (auto simp: snds.simps)
  then have hh: "map ?h (map ?h kvs) = map ?h kvs"
    by (induction kvs) simp_all
  have "sort_keys (sort_keys (JObj kvs)) = JObj (sort_key fst (map ?h (sort_key fst (map ?h kvs))))"
    by simp
  also have "map ?h (sort_key fst (map ?h kvs)) = sort_key fst (map ?h (map ?h kvs))"
    by (simp only: sort_key_map_snd)
  also have "\<dots> = sort_key fst (map ?h kvs)" by (simp only: hh)
  also have "sort_key fst (sort_key fst (map ?h kvs)) = sort_key fst (map ?h kvs)"
    by (rule sort_key_id_if_sorted) simp
  finally show ?case by simp
qed simp_all

lemma same_json_sort_keys: "same_json (sort_keys v) v"
  by (simp add: same_json_def sort_keys_idem)

lemma same_json_refl: "same_json v v"
  by (simp add: same_json_def)

lemma map_of_sort_key:
  assumes "distinct (map fst kvs)"
  shows "map_of (sort_key fst kvs) = map_of kvs"
proof -
  have "distinct (map fst (sort_key fst kvs))"
    using assms by (metis distinct_map distinct_sort set_sort)
  moreover have "set (sort_key fst kvs) = set kvs" by simp
  ultimately show ?thesis using assms by (simp add: map_of_inject_set)
qed

lemma map_of_map_snd:
  "map_of (map (\<lambda>kv. (fst kv, g (snd kv))) kvs) k = map_option g (map_of kvs k)"
  by (induction kvs) auto

lemma dict_get_sort_keys:
  assumes "distinct (map fst kvs)"
  shows "map_of (sort_key fst (map (\<lambda>kv. (fst kv, sort_keys (snd kv))) kvs)) k
           = map_option sort_keys (map_of kvs k)"
proof -
  have "distinct (map fst (map (\<lambda>kv. (fst kv, sort_keys (snd kv))) kvs))"
    using assms by (simp add: comp_def)
  then show ?thesis by (simp add: map_of_sort_key map_of_map_snd)
qed

lemma replace_Z_id: "CHR ''Z'' \<notin> set s \<Longrightarrow> replace_Z s = s"
  by (induction s) (auto simp: replace_Z_def)

lemma normalize_own_timestamp:
  "CHR ''Z'' \<notin> set s \<Longrightarrow> normalize_timestamp (s @ ''Z'') = s @ ''+00:00''"
  by (simp add: normalize_timestamp_def ends_with_Z_def butlast_append replace_Z_id)

lemma json_dumps_obj_nonempty: "json_dumps fr b (JObj kvs) \<noteq> []"
  by (simp add: json_dumps_def)

lemma decrypt_encrypt:
  assumes "sealing_ok l key iv plaintext"
  shows "decrypt_payload l (JStr (encrypt_payload l key iv plaintext)) = Some plaintext"
proof -
  obtain ct tag where e: "aes_gcm_encrypt l key iv plaintext = (ct, tag)"
    by (cases "aes_gcm_encrypt l key iv plaintext") auto
  let ?rec = "[(''key'', JStr (b64encode l key)), (''iv'', JStr (b64encode l iv)),
               (''ciphertext'', JStr (b64encode l ct)), (''tag'', JStr (b64encode l tag))]"
  from assms e have
    b: "b64decode l (b64encode l key) = Some key" "b64decode l (b64encode l iv) = Some iv"
       "b64decode l (b64encode l ct) = Some ct" "b64decode l (b64encode l tag) = Some tag"
       "b64decode l (b64encode l (json_dumps (float_repr l) False (JObj ?rec)))
          = Some (json_dumps (float_repr l) False (JObj ?rec))"
    and a: "aes_gcm_decrypt l key iv tag ct = Some plaintext"
    and j: "json_loads l (json_dumps (float_repr l) False (JObj ?rec)) = Some (JObj ?rec)"
    by (simp_all add: sealing_ok_def Let_def)
  have enc: "encrypt_payload l key iv plaintext = b64encode l (json_dumps (float_repr l) False (JObj ?rec))"
    by (simp add: encrypt_payload_def e)
  show ?thesis
    unfolding enc decrypt_payload_def
    by (simp add: b a j b64_field_def)
qed

lemma check_fresh_time:
  assumes "message_time l (JObj d) = Some u"
  shows "check_fresh l t (JObj d) =
           (if u \<le> t \<and> t \<le> u + 300000000
            then (if truthy (dict_get d ''nonce'') then Verified (JObj d)
                  else Refused ''Missing message nonce'')
            else Refused ''Message timestamp too old'')"
proof -
  from assms obtain s where s: "dict_get d ''timestamp'' = JStr s"
    and f: "fromisoformat l (normalize_timestamp s) = Some u"
    by (auto simp: message_time_def split: json.splits)
  have "verify_timestamp l t (dict_get d ''timestamp'') 300 \<longleftrightarrow> u \<le> t \<and> t \<le> u + 300000000"
    unfolding verify_timestamp_iff s using f by auto
  then show ?thesis by (simp add: check_fresh_def)
qed

lemma inner_message_sorted:
  "\<exists>kvs. sort_keys (inner_message l d rcpt ty payload) = JObj kvs
         \<and> dict_get kvs ''timestamp'' = JStr (get_timestamp l (dr_utcnow d))
         \<and> dict_get kvs ''nonce'' = JStr (dr_nonce d)"
proof -
  let ?kvs = "[(''sender_id'', JStr (dr_agent_id d)), (''recipient_id'', JStr rcpt),
               (''message_type'', JStr ty), (''timestamp'', JStr (get_timestamp l (dr_utcnow d))),
               (''nonce'', JStr (dr_nonce d)), (''payload'', payload)]"
  let ?s = "sort_key fst (map (\<lambda>kv. (fst kv, sort_keys (snd kv))) ?kvs)"
  have dist: "distinct (map fst ?kvs)" by simp
  have s: "sort_keys (inner_message l d rcpt ty payload) = JObj ?s"
    unfolding inner_message_def by (simp only: sort_keys.simps)
  have g1: "dict_get ?s ''timestamp'' = JStr (get_timestamp l (dr_utcnow d))"
    unfolding dict_get_def dict_get_sort_keys[OF dist] by simp
  have g2: "dict_get ?s ''nonce'' = JStr (dr_nonce d)"
    unfolding dict_get_def dict_get_sort_keys[OF dist] by simp
  from s g1 g2 show ?thesis by blast
qed

lemma message_time_inner:
  assumes "clock_ok l (dr_utcnow d)"
  shows "message_time l (inner_message l d rcpt ty payload) = Some (dr_utcnow d)"
    and "message_time l (sort_keys (inner_message l d rcpt ty payload)) = Some (dr_utcnow d)"
proof -
  have n: "fromisoformat l (normalize_timestamp (get_timestamp l (dr_utcnow d))) = Some (dr_utcnow d)"
    using assms by (simp add: clock_ok_def get_timestamp_def normalize_own_timestamp)
  show "message_time l (inner_message l d rcpt ty payload) = Some (dr_utcnow d)"
    using n by (simp add: message_time_def inner_message_def dict_get_def)
  from inner_message_sorted[of l d rcpt ty payload] n
  show "message_time l (sort_keys (inner_message l d rcpt ty payload)) = Some (dr_utcnow d)"
    by (auto simp: message_time_def)
qed

lemma check_fresh_inner:
  assumes "clock_ok l (dr_utcnow d)" and "dr_nonce d \<noteq> []"
  shows "check_fresh l t (inner_message l d rcpt ty payload) =
           (if dr_utcnow d \<le> t \<and> t \<le> dr_utcnow d + 300000000
            then Verified (inner_message l d rcpt ty payload)
            else Refused ''Message timestamp too old'')"
    and "check_fresh l t (sort_keys (inner_message l d rcpt ty payload)) =
           (if dr_utcnow d \<le> t \<and> t \<le> dr_utcnow d + 300000000
            then Verified (sort_keys (inner_message l d rcpt ty payload))
            else Refused ''Message timestamp too old'')"
proof -
  note mt = message_time_inner[OF assms(1), of rcpt ty payload]
  have "\<exists>kvs. inner_message l d rcpt ty payload = JObj kvs \<and> dict_get kvs ''nonce'' = JStr (dr_nonce d)"
    by (simp add: inner_message_def dict_get_def)
  then obtain kvs where k: "inner_message l d rcpt ty payload = JObj kvs"
    "dict_get kvs ''nonce'' = JStr (dr_nonce d)" by blast
  show "check_fresh l t (inner_message l d rcpt ty payload) =
           (if dr_utcnow d \<le> t \<and> t \<le> dr_utcnow d + 300000000
            then Verified (inner_message l d rcpt ty payload)
            else Refused ''Message timestamp too old'')"
    using check_fresh_time[OF mt(1)[unfolded k(1)], of t] k assms(2) by simp
  from inner_message_sorted[of l d rcpt ty payload] obtain kvs' where k':
    "sort_keys (inner_message l d rcpt ty payload) = JObj kvs'"
    "dict_get kvs' ''nonce'' = JStr (dr_nonce d)" by blast
  show "check_fresh l t (sort_keys (inner_message l d rcpt ty payload)) =
           (if dr_utcnow d \<le> t \<and> t \<le> dr_utcnow d + 300000000
            then Verified (sort_keys (inner_message l d rcpt ty payload))
            else Refused ''Message timestamp too old'')"
    using check_fresh_time[OF mt(2)[unfolded k'(1)], of t] k' assms(2) by simp
qed

lemma open_created_plain:
  assumes "keystore_ok l" and "falsy pk"
  shows "open_envelope l (create_secure_message l d rcpt ty payload pk)
           = Inr (inner_message l d rcpt ty payload)"
proof -
  let ?msg = "inner_message l d rcpt ty payload"
  let ?json = "json_dumps (float_repr l) True ?msg"
  from assms(1) have sig: "verify_signature l ?json (JStr (sign_message l ?json)) (JStr (get_public_key_pem l))"
    and sne: "sign_message l ?json \<noteq> []" and pne: "get_public_key_pem l \<noteq> []"
    by (simp_all add: keystore_ok_def)
  have tr: "truthy ?msg" by (simp add: inner_message_def)
  show ?thesis
    using assms(2) sig sne pne tr
    unfolding open_envelope_def create_secure_message_def inner_message_def[symmetric] Let_def
    by (simp add: dict_get_def)
qed

lemma open_created_sealed:
  assumes "keystore_ok l" and "\<not> falsy pk"
    and "sealing_ok l (dr_key d) (dr_iv d) (json_dumps (float_repr l) True (inner_message l d rcpt ty payload))"
    and "parses_back l (inner_message l d rcpt ty payload)"
  shows "open_envelope l (create_secure_message l d rcpt ty payload pk)
           = Inr (sort_keys (inner_message l d rcpt ty payload))"
proof -
  let ?msg = "inner_message l d rcpt ty payload"
  let ?json = "json_dumps (float_repr l) True ?msg"
  from assms(1) have sig: "verify_signature l ?json (JStr (sign_message l ?json)) (JStr (get_public_key_pem l))"
    and sne: "sign_message l ?json \<noteq> []" and pne: "get_public_key_pem l \<noteq> []"
    by (simp_all add: keystore_ok_def)
  from assms(4) have loads: "json_loads l ?json = Some (sort_keys ?msg)"
    by (simp add: parses_back_def)
  have ne: "?json \<noteq> []"
    unfolding inner_message_def by (rule json_dumps_obj_nonempty)
  show ?thesis
    using assms(2) sig sne pne loads ne decrypt_encrypt[OF assms(3)]
    unfolding open_envelope_def create_secure_message_def inner_message_def[symmetric] Let_def
    by (simp add: dict_get_def)
qed

lemma ref_keystore_ok: "keystore_ok ref_lib"
  by (simp add: keystore_ok_def ref_lib_def)

lemma ref_clock_ok: "clock_ok ref_lib new_year" "clock_ok ref_lib (new_year + 100000000)"
  by code_simp+

lemma ref_sealing_canonical: "sealing_ok ref_lib ''K'' ''IV'' (canonical_text new_year)"
  by code_simp

lemma ref_parses_back: "parses_back ref_lib (task_message new_year)"
  by code_simp

lemma ref_sealing_loose: "sealing_ok ref_lib ''K'' ''IV'' (loose_text new_year)"
  by code_simp

lemma ref_parse_loose: "json_parse (loose_text new_year) = Some (task_message new_year)"
  by code_simp

lemma loose_not_canonical: "loose_text new_year \<noteq> canonical_text new_year"
  by code_simp

lemma draw_at_fields:
  "dr_utcnow (draw_at t) = t" "dr_nonce (draw_at t) \<noteq> []"
  "dr_key (draw_at t) = ''K''" "dr_iv (draw_at t) = ''IV''"
  by (simp_all add: draw_at_def)

lemma verify_plain:
  assumes "clock_ok ref_lib u"
  shows "verify_secure_message ref_lib t (plain_envelope u) =
           (if u \<le> t \<and> t \<le> u + 300000000 then Verified (task_message u)
            else Refused ''Message timestamp too old'')"
proof -
  have f: "falsy None" by simp
  have c: "clock_ok ref_lib (dr_utcnow (draw_at u))" using assms by (simp add: draw_at_fields)
  from open_created_plain[OF ref_keystore_ok f, of "draw_at u" "''hub''" "''request''" task_payload]
    check_fresh_inner(1)[OF c draw_at_fields(2), of t "''hub''" "''request''" task_payload]
  show ?thesis
    by (simp add: verify_split plain_envelope_def task_message_def draw_at_fields)
qed

lemma verify_sealed:
  "verify_secure_message ref_lib t (sealed_envelope new_year) =
           (if new_year \<le> t \<and> t \<le> new_year + 300000000
            then Verified (sort_keys (task_message new_year))
            else Refused ''Message timestamp too old'')"
proof -
  have f: "\<not> falsy (Some ''HUB-PEM'')" by simp
  have c: "clock_ok ref_lib (dr_utcnow (draw_at new_year))"
    using ref_clock_ok(1) by (simp add: draw_at_fields)
  have s: "sealing_ok ref_lib (dr_key (draw_at new_year)) (dr_iv (draw_at new_year))
             (json_dumps (float_repr ref_lib) True
                (inner_message ref_lib (draw_at new_year) ''hub'' ''request'' task_payload))"
    using ref_sealing_canonical by (simp add: draw_at_fields canonical_text_def task_message_def)
  have p: "parses_back ref_lib (inner_message ref_lib (draw_at new_year) ''hub'' ''request'' task_payload)"
    using ref_parses_back by (simp add: task_message_def)
  from open_created_sealed[OF ref_keystore_ok f s p]
    check_fresh_inner(2)[OF c draw_at_fields(2), of t "''hub''" "''request''" task_payload]
  show ?thesis
    by (simp add: verify_split sealed_envelope_def task_message_def draw_at_fields)
qed

lemma verify_loose:
  "verify_secure_message ref_lib t (loose_envelope new_year sig) =
     (if sig = sign_message ref_lib (loose_text new_year)
      then (if new_year \<le> t \<and> t \<le> new_year + 300000000 then Verified (task_message new_year)
            else Refused ''Message timestamp too old'')
      else if sig = [] then Refused ''Missing signature or public key''
      else Refused ''Invalid signature'')"
proof -
  have ne: "loose_text new_year \<noteq> []"
    unfolding loose_text_def task_message_def inner_message_def by (rule json_dumps_obj_nonempty)
  have l: "json_loads ref_lib (loose_text new_year) = Some (task_message new_year)"
    using ref_parse_loose by (simp add: ref_lib_def)
  have v: "verify_signature ref_lib (loose_text new_year) (JStr sig) (JStr ''PEM'')
             \<longleftrightarrow> sig = sign_message ref_lib (loose_text new_year)"
    by (simp add: ref_lib_def)
  have s0: "sign_message ref_lib (loose_text new_year) \<noteq> []" by (simp add: ref_lib_def)
  have c: "clock_ok ref_lib (dr_utcnow (draw_at new_year))"
    using ref_clock_ok(1) by (simp add: draw_at_fields)
  have o: "open_envelope ref_lib (loose_envelope new_year sig) =
     (if sig = [] then Inl (Refused ''Missing signature or public key'')
      else if sig = sign_message ref_lib (loose_text new_year) then Inr (task_message new_year)
      else Inl (Refused ''Invalid signature''))"
    unfolding open_envelope_def Let_def
    by (simp add: loose_envelope_def dict_get_def decrypt_encrypt[OF ref_sealing_loose] ne l v)
  from check_fresh_inner(1)[OF c draw_at_fields(2), of t "''hub''" "''request''" task_payload]
  show ?thesis using s0
    by (auto simp: verify_split o task_message_def draw_at_fields)
qed

lemma future_age:
  "timestamp_age ref_lib new_year (JStr ''2026-01-01T00:01:40Z'') = Some (- 100000000)"
  by code_simp

lemma own_timestamp_window:
  assumes "clock_ok l u"
  shows "verify_timestamp l t (JStr (get_timestamp l u)) 300 \<longleftrightarrow> u \<le> t \<and> t \<le> u + 300000000"
  using assms unfolding verify_timestamp_iff clock_ok_def get_timestamp_def
  by (simp add: normalize_own_timestamp)

subsection \<open>Replay\<close>

text \<open>
  Claim C1 (an envelope that was accepted is rejected as a replay when submitted again
  within the freshness window). Not so: \<open>verify_secure_message\<close> keeps no record of
  the nonces it has seen and only tests that the nonce is there. The same envelope,
  verified ten and again twenty seconds after it was built, is accepted both times,
  unencrypted or encrypted.
\<close>

theorem replay_not_rejected_counterexample:
  "verify_secure_message ref_lib (new_year + 10000000) (plain_envelope new_year)
     = Verified (task_message new_year)
   \<and> verify_secure_message ref_lib (new_year + 20000000) (plain_envelope new_year)
     = Verified (task_message new_year)
   \<and> verify_secure_message ref_lib (new_year + 10000000) (sealed_envelope new_year)
     = Verified (sort_keys (task_message new_year))
   \<and> verify_secure_message ref_lib (new_year + 20000000) (sealed_envelope new_year)
     = Verified (sort_keys (task_message new_year))"
  by (simp add: verify_plain[OF ref_clock_ok(1)] verify_sealed)

text \<open>
  Claim C1, amended. Verification has no memory: an envelope that is accepted carries a
  timestamp that lies at most 300 seconds back, and the same envelope is accepted
  again, with the same message, at every instant from its timestamp to 300 seconds
  after it.
\<close>

theorem replay_accepted:
  assumes "verify_secure_message l t e = Verified m"
  shows "\<exists>u. message_time l m = Some u \<and> u \<le> t \<and> t \<le> u + 300000000
           \<and> (\<forall>t'. u \<le> t' \<and> t' \<le> u + 300000000 \<longrightarrow> verify_secure_message l t' e = Verified m)"
proof -
  from assms obtain msg where o: "open_envelope l e = Inr msg" and c: "check_fresh l t msg = Verified m"
    using open_envelope_not_Verified[of l e m]
    by (auto simp: verify_split split: sum.splits)
  from c have eq: "msg = m" and ex: "\<exists>d. m = JObj d \<and> verify_timestamp l t (dict_get d ''timestamp'') 300"
    and n: "\<exists>d. m = JObj d \<and> truthy (dict_get d ''nonce'')"
    by (auto simp: check_fresh_Verified)
  from ex obtain d u where d: "m = JObj d" and u: "message_time l m = Some u" "u \<le> t" "t \<le> u + 300000000"
    unfolding message_time_window by blast
  have "verify_secure_message l t' e = Verified m" if "u \<le> t' \<and> t' \<le> u + 300000000" for t'
  proof -
    from that d u(1) have "\<exists>d. m = JObj d \<and> verify_timestamp l t' (dict_get d ''timestamp'') 300"
      unfolding message_time_window by blast
    with n d have "check_fresh l t' m = Verified m"
      by (auto simp: check_fresh_Verified)
    with o eq show ?thesis by (simp add: verify_split)
  qed
  with u show ?thesis by blast
qed

text \<open>Witness for C1: accepted after ten seconds, and again at the end of the window.\<close>

theorem replay_accepted_witness:
  "verify_secure_message ref_lib (new_year + 10000000) (plain_envelope new_year)
     = Verified (task_message new_year)
   \<and> message_time ref_lib (task_message new_year) = Some new_year
   \<and> verify_secure_message ref_lib (new_year + 300000000) (plain_envelope new_year)
     = Verified (task_message new_year)"
proof -
  have v: "verify_secure_message ref_lib (new_year + 10000000) (plain_envelope new_year)
     = Verified (task_message new_year)"
    by (simp add: verify_plain[OF ref_clock_ok(1)])
  have c: "clock_ok ref_lib (dr_utcnow (draw_at new_year))"
    using ref_clock_ok(1) by (simp add: draw_at_fields)
  have m: "message_time ref_lib (task_message new_year) = Some new_year"
    using message_time_inner(1)[OF c] by (simp add: task_message_def draw_at_fields)
  from replay_accepted[OF v] m
  have "\<forall>t'. new_year \<le> t' \<and> t' \<le> new_year + 300000000 \<longrightarrow>
          verify_secure_message ref_lib t' (plain_envelope new_year) = Verified (task_message new_year)"
    by auto
  then have "verify_secure_message ref_lib (new_year + 300000000) (plain_envelope new_year)
     = Verified (task_message new_year)"
    by simp
  with v m show ?thesis by simp
qed

subsection \<open>Round trip\<close>

text \<open>
  Claim C2. With a correct key store, a clock whose text reads back, a nonce that is not
  empty, and verification from 0 to 300 seconds after the message was built,
  \<open>verify_secure_message\<close> accepts what \<open>create_secure_message\<close> built and returns the
  inner message: the very dictionary on the unencrypted path; on the encrypted path
  (where the libraries must undo the sealing and parse the canonical text back) the
  parsed dictionary, equal to it up to the order of keys.
\<close>

theorem secure_message_roundtrip:
  assumes "keystore_ok l" and "clock_ok l (dr_utcnow d)"
    and "dr_utcnow d \<le> t" and "t \<le> dr_utcnow d + 300 * 1000000"
    and "dr_nonce d \<noteq> []"
    and "\<not> falsy pk \<longrightarrow>
           sealing_ok l (dr_key d) (dr_iv d)
             (json_dumps (float_repr l) True (inner_message l d rcpt ty payload))
           \<and> parses_back l (inner_message l d rcpt ty payload)"
  shows "\<exists>m. verify_secure_message l t (create_secure_message l d rcpt ty payload pk) = Verified m
           \<and> same_json m (inner_message l d rcpt ty payload)
           \<and> (falsy pk \<longrightarrow> m = inner_message l d rcpt ty payload)
           \<and> (\<not> falsy pk \<longrightarrow> m = sort_keys (inner_message l d rcpt ty payload))"
proof (cases "falsy pk")
  case True
  from open_created_plain[OF assms(1) True] check_fresh_inner(1)[OF assms(2,5)] assms(3,4) True
  show ?thesis by (simp add: verify_split same_json_refl)
next
  case False
  with assms(6) have s: "sealing_ok l (dr_key d) (dr_iv d)
             (json_dumps (float_repr l) True (inner_message l d rcpt ty payload))"
    and p: "parses_back l (inner_message l d rcpt ty payload)" by simp_all
  from open_created_sealed[OF assms(1) False s p] check_fresh_inner(2)[OF assms(2,5)] assms(3,4) False
  show ?thesis by (simp add: verify_split same_json_sort_keys)
qed

text \<open>Witness for C2: both paths, ten seconds after the message was built.\<close>

theorem secure_message_roundtrip_witness:
  "keystore_ok ref_lib \<and> clock_ok ref_lib new_year
   \<and> sealing_ok ref_lib ''K'' ''IV'' (canonical_text new_year)
   \<and> parses_back ref_lib (task_message new_year)
   \<and> verify_secure_message ref_lib (new_year + 10000000) (sealed_envelope new_year)
        = Verified (sort_keys (task_message new_year))
   \<and> verify_secure_message ref_lib (new_year + 10000000) (plain_envelope new_year)
        = Verified (task_message new_year)
   \<and> same_json (sort_keys (task_message new_year)) (task_message new_year)"
proof -
  have w: "dr_utcnow (draw_at new_year) \<le> new_year + 10000000"
    "new_year + 10000000 \<le> dr_utcnow (draw_at new_year) + 300 * 1000000"
    by (simp_all add: draw_at_fields)
  have ck: "clock_ok ref_lib (dr_utcnow (draw_at new_year))"
    by (simp add: draw_at_fields ref_clock_ok)
  have c1: "\<not> falsy (Some ''HUB-PEM'') \<longrightarrow>
     sealing_ok ref_lib (dr_key (draw_at new_year)) (dr_iv (draw_at new_year))
       (json_dumps (float_repr ref_lib) True
          (inner_message ref_lib (draw_at new_year) ''hub'' ''request'' task_payload))
     \<and> parses_back ref_lib (inner_message ref_lib (draw_at new_year) ''hub'' ''request'' task_payload)"
    using ref_sealing_canonical ref_parses_back
    by (simp add: draw_at_fields task_message_def canonical_text_def)
  have c2: "\<not> falsy None \<longrightarrow>
     sealing_ok ref_lib (dr_key (draw_at new_year)) (dr_iv (draw_at new_year))
       (json_dumps (float_repr ref_lib) True
          (inner_message ref_lib (draw_at new_year) ''hub'' ''request'' task_payload))
     \<and> parses_back ref_lib (inner_message ref_lib (draw_at new_year) ''hub'' ''request'' task_payload)"
    by simp
  from secure_message_roundtrip[OF ref_keystore_ok ck w draw_at_fields(2) c1]
  have s: "verify_secure_message ref_lib (new_year + 10000000) (sealed_envelope new_year)
        = Verified (sort_keys (task_message new_year))
     \<and> same_json (sort_keys (task_message new_year)) (task_message new_year)"
    by (auto simp: sealed_envelope_def task_message_def)
  from secure_message_roundtrip[OF ref_keystore_ok ck w draw_at_fields(2) c2]
  have p: "verify_secure_message ref_lib (new_year + 10000000) (plain_envelope new_year)
        = Verified (task_message new_year)"
    by (auto simp: plain_envelope_def task_message_def)
  from s p ref_keystore_ok ref_clock_ok ref_sealing_canonical ref_parses_back show ?thesis by simp
qed

subsection \<open>Freshness\<close>

text \<open>
  Claim C6 (a timestamp up to 300 seconds in the future passes the timestamp step). Not
  so: \<^verbatim>\<open>_verify_timestamp\<close> asks for \<^verbatim>\<open>0 <= age\<close>. A timestamp 100 seconds ahead of
  the receiver's clock has age -100 s and is refused, and so is the envelope carrying it.
\<close>

theorem future_timestamp_counterexample:
  "timestamp_age ref_lib new_year (JStr ''2026-01-01T00:01:40Z'') = Some (- 100000000)
   \<and> \<not> verify_timestamp ref_lib new_year (JStr ''2026-01-01T00:01:40Z'') 300
   \<and> verify_secure_message ref_lib new_year (plain_envelope (new_year + 100000000))
        = Refused ''Message timestamp too old''"
  by (simp add: future_age verify_timestamp_def verify_plain[OF ref_clock_ok(2)])

text \<open>
  Claim C6, amended. The timestamp step passes exactly the timestamps that are text,
  parse, and lie from 0 to 300 seconds (both included) before the receiver's clock; a
  timestamp in the future fails it like one that is too old. An envelope that got as
  far as the timestamp step and fails it is refused with \<open>Message timestamp too old\<close>,
  and every accepted envelope has passed it.
\<close>

theorem freshness_window:
  "(verify_timestamp l t ts 300 \<longleftrightarrow>
      (\<exists>s u. ts = JStr s \<and> fromisoformat l (normalize_timestamp s) = Some u
             \<and> 0 \<le> t - u \<and> t - u \<le> 300 * 1000000))
   \<and> (\<forall>e d. open_envelope l e = Inr (JObj d)
              \<and> \<not> verify_timestamp l t (dict_get d ''timestamp'') 300
          \<longrightarrow> verify_secure_message l t e = Refused ''Message timestamp too old'')
   \<and> (\<forall>e m. verify_secure_message l t e = Verified m
          \<longrightarrow> (\<exists>d. m = JObj d \<and> verify_timestamp l t (dict_get d ''timestamp'') 300))"
proof (intro conjI allI impI)
  show "verify_timestamp l t ts 300 \<longleftrightarrow>
      (\<exists>s u. ts = JStr s \<and> fromisoformat l (normalize_timestamp s) = Some u
             \<and> 0 \<le> t - u \<and> t - u \<le> 300 * 1000000)"
    unfolding verify_timestamp_iff by auto
next
  fix e d
  assume "open_envelope l e = Inr (JObj d) \<and> \<not> verify_timestamp l t (dict_get d ''timestamp'') 300"
  then show "verify_secure_message l t e = Refused ''Message timestamp too old''"
    by (simp add: verify_split check_fresh_def)
next
  fix e m
  assume v: "verify_secure_message l t e = Verified m"
  then obtain msg where "open_envelope l e = Inr msg" and "check_fresh l t msg = Verified m"
    using open_envelope_not_Verified[of l e m]
    by (auto simp: verify_split split: sum.splits)
  then show "\<exists>d. m = JObj d \<and> verify_timestamp l t (dict_get d ''timestamp'') 300"
    by (auto simp: check_fresh_Verified)
qed

text \<open>Witness for C6: the two ends of the window, one microsecond beyond each, and the
  envelope from 100 seconds ahead.\<close>

theorem freshness_window_witness:
  "iso_parse (normalize_timestamp ''2026-01-01T00:00:00Z'') = Some new_year
   \<and> verify_timestamp ref_lib (new_year + 300000000) (JStr ''2026-01-01T00:00:00Z'') 300
   \<and> \<not> verify_timestamp ref_lib (new_year + 300000001) (JStr ''2026-01-01T00:00:00Z'') 300
   \<and> \<not> verify_timestamp ref_lib (new_year - 1) (JStr ''2026-01-01T00:00:00Z'') 300
   \<and> open_envelope ref_lib (plain_envelope (new_year + 100000000))
        = Inr (task_message (new_year + 100000000))
   \<and> verify_secure_message ref_lib new_year (plain_envelope (new_year + 100000000))
        = Refused ''Message timestamp too old''
   \<and> verify_secure_message ref_lib (new_year + 300000000) (plain_envelope new_year)
        = Verified (task_message new_year)"
proof -
  let ?u = "new_year + 100000000"
  let ?d = "[(''sender_id'', JStr (dr_agent_id (draw_at ?u))), (''recipient_id'', JStr ''hub''),
             (''message_type'', JStr ''request''),
             (''timestamp'', JStr (get_timestamp ref_lib (dr_utcnow (draw_at ?u)))),
             (''nonce'', JStr (dr_nonce (draw_at ?u))), (''payload'', task_payload)]"
  have p: "iso_parse (normalize_timestamp ''2026-01-01T00:00:00Z'') = Some new_year"
    by code_simp
  then have f: "fromisoformat ref_lib (normalize_timestamp ''2026-01-01T00:00:00Z'') = Some new_year"
    by (simp add: ref_lib_def)
  have tm: "task_message ?u = JObj ?d"
    by (simp add: task_message_def inner_message_def)
  have o: "open_envelope ref_lib (plain_envelope ?u) = Inr (JObj ?d)"
    using open_created_plain[OF ref_keystore_ok, of None "draw_at ?u" "''hub''" "''request''" task_payload]
    by (simp add: plain_envelope_def inner_message_def)
  have nv: "\<not> verify_timestamp ref_lib new_year (dict_get ?d ''timestamp'') 300"
    using own_timestamp_window[OF ref_clock_ok(2), of new_year]
    by (simp add: dict_get_def draw_at_fields)
  have acc: "verify_secure_message ref_lib (new_year + 300000000) (plain_envelope new_year)
        = Verified (task_message new_year)"
    by (simp add: verify_plain[OF ref_clock_ok(1)])
  note w = freshness_window[of ref_lib new_year "JStr ''2026-01-01T00:00:00Z''"]
  from w o nv have r: "verify_secure_message ref_lib new_year (plain_envelope ?u)
        = Refused ''Message timestamp too old''"
    by blast
  show ?thesis
    using p f r acc o tm
      freshness_window[of ref_lib "new_year + 300000000" "JStr ''2026-01-01T00:00:00Z''"]
      freshness_window[of ref_lib "new_year + 300000001" "JStr ''2026-01-01T00:00:00Z''"]
      freshness_window[of ref_lib "new_year - 1" "JStr ''2026-01-01T00:00:00Z''"]
    by simp
qed

subsection \<open>What the signature of an encrypted envelope covers\<close>

text \<open>
  Claim C7 (the signature of an encrypted envelope is checked over the canonical
  re-serialization of the decrypted message). Not so: the source sets
  \<^verbatim>\<open>message_json = decrypted_json\<close>. Take a plaintext with the keys in insertion
  order, which is not its canonical text. Signed over that plaintext, the envelope
  verifies although the signature does not match the canonical text; signed over the
  canonical text, it is refused.
\<close>

theorem signature_over_plaintext_counterexample:
  "loose_text new_year \<noteq> canonical_text new_year
   \<and> verify_secure_message ref_lib (new_year + 10000000)
        (loose_envelope new_year (sign_message ref_lib (loose_text new_year)))
      = Verified (task_message new_year)
   \<and> \<not> verify_signature ref_lib (canonical_text new_year)
          (JStr (sign_message ref_lib (loose_text new_year))) (JStr ''PEM'')
   \<and> verify_signature ref_lib (canonical_text new_year)
          (JStr (sign_message ref_lib (canonical_text new_year))) (JStr ''PEM'')
   \<and> verify_secure_message ref_lib (new_year + 10000000)
        (loose_envelope new_year (sign_message ref_lib (canonical_text new_year)))
      = Refused ''Invalid signature''"
proof -
  note n = loose_not_canonical
  have a: "sign_message ref_lib (canonical_text new_year) \<noteq> sign_message ref_lib (loose_text new_year)"
    using n by (simp add: ref_lib_def)
  have b: "sign_message ref_lib (canonical_text new_year) \<noteq> []" by (simp add: ref_lib_def)
  have c: "\<not> verify_signature ref_lib (canonical_text new_year)
          (JStr (sign_message ref_lib (loose_text new_year))) (JStr ''PEM'')"
    using n by (simp add: ref_lib_def)
  have d: "verify_signature ref_lib (canonical_text new_year)
          (JStr (sign_message ref_lib (canonical_text new_year))) (JStr ''PEM'')"
    by (simp add: ref_lib_def)
  from n a b c d show ?thesis by (simp add: verify_loose)
qed

text \<open>
  Claim C7, amended. For an encrypted envelope whose payload decrypts and parses, the
  signature is checked over the decrypted plaintext as it is: the envelope goes on to
  the timestamp and nonce checks if the signature is valid over that text, and is
  refused with \<open>Invalid signature\<close> otherwise.
\<close>

theorem signature_over_plaintext:
  assumes "truthy (dict_get e ''signature'')" and "truthy (dict_get e ''sender_public_key'')"
    and "truthy (dict_get e ''encrypted'')"
    and "map_of e ''encrypted_payload'' = Some ep"
    and "decrypt_payload l ep = Some plaintext" and "plaintext \<noteq> []"
    and "json_loads l plaintext = Some message"
  shows "verify_secure_message l t e =
           (if verify_signature l plaintext (dict_get e ''signature'') (dict_get e ''sender_public_key'')
            then check_fresh l t message
            else Refused ''Invalid signature'')"
  using assms unfolding verify_secure_message_def Let_def by simp

text \<open>Witness for C7: the envelope signed over its non-canonical plaintext.\<close>

theorem signature_over_plaintext_witness:
  "decrypt_payload ref_lib (JStr (encrypt_payload ref_lib ''K'' ''IV'' (loose_text new_year)))
     = Some (loose_text new_year)
   \<and> json_loads ref_lib (loose_text new_year) = Some (task_message new_year)
   \<and> verify_signature ref_lib (loose_text new_year)
        (JStr (sign_message ref_lib (loose_text new_year))) (JStr ''PEM'')
   \<and> verify_secure_message ref_lib (new_year + 10000000)
        (loose_envelope new_year (sign_message ref_lib (loose_text new_year)))
      = check_fresh ref_lib (new_year + 10000000) (task_message new_year)"
proof -
  let ?e = "loose_envelope new_year (sign_message ref_lib (loose_text new_year))"
  have g: "dict_get ?e ''signature'' = JStr (sign_message ref_lib (loose_text new_year))"
    "dict_get ?e ''sender_public_key'' = JStr ''PEM''"
    "dict_get ?e ''encrypted'' = JBool True"
    "map_of ?e ''encrypted_payload'' = Some (JStr (encrypt_payload ref_lib ''K'' ''IV'' (loose_text new_year)))"
    by (simp_all add: loose_envelope_def dict_get_def)
  have a1: "truthy (dict_get ?e ''signature'')" unfolding g by (simp add: ref_lib_def)
  have a2: "truthy (dict_get ?e ''sender_public_key'')" by (simp add: g)
  have a3: "truthy (dict_get ?e ''encrypted'')" by (simp add: g)
  note d = decrypt_encrypt[OF ref_sealing_loose]
  have ne: "loose_text new_year \<noteq> []"
    unfolding loose_text_def task_message_def inner_message_def by (rule json_dumps_obj_nonempty)
  have j: "json_loads ref_lib (loose_text new_year) = Some (task_message new_year)"
    using ref_parse_loose by (simp add: ref_lib_def)
  have s: "verify_signature ref_lib (loose_text new_year)
        (JStr (sign_message ref_lib (loose_text new_year))) (JStr ''PEM'')"
    by (simp add: ref_lib_def)
  from signature_over_plaintext[OF a1 a2 a3 g(4) d ne j, of "new_year + 10000000"] s g d j
  show ?thesis by simp
qed

end
